theory Spec2Isabelle
  imports Main "HOL-Library.Sublist" "HOL-Library.AList"
begin

section \<open>Strings and paths of the Go standard library\<close>

text \<open>
  A Go string is modelled as a \<^typ>\<open>string\<close>. A character stands for the Unicode code
  point of the same number, so the model covers text within U+0000..U+00FF. Within that
  range the white space of \<open>unicode.IsSpace\<close> (used by \<open>strings.TrimSpace\<close> and
  \<open>strings.Fields\<close>) is tab, line feed, vertical tab, form feed, carriage return, space,
  U+0085 and U+00A0, while the class \<open>\s\<close> of package \<open>regexp\<close> is only
  tab, line feed, form feed, carriage return and space.
\<close>

definition unicode_IsSpace :: "char \<Rightarrow> bool" where
  "unicode_IsSpace c \<longleftrightarrow>
     c = CHR 0x09 \<or> c = CHR 0x0A \<or> c = CHR 0x0B \<or> c = CHR 0x0C \<or> c = CHR 0x0D \<or>
     c = CHR 0x20 \<or> c = CHR 0x85 \<or> c = CHR 0xA0"

definition strings_TrimSpace :: "string \<Rightarrow> string" where
  "strings_TrimSpace s = rev (dropWhile unicode_IsSpace (rev (dropWhile unicode_IsSpace s)))"

text \<open>\<open>strings.Trim(s, cutset)\<close>: all leading and trailing characters of the cutset removed.\<close>

definition strings_Trim :: "string \<Rightarrow> string \<Rightarrow> string" where
  "strings_Trim s cutset =
     rev (dropWhile (\<lambda>c. c \<in> set cutset) (rev (dropWhile (\<lambda>c. c \<in> set cutset) s)))"

definition strings_HasPrefix :: "string \<Rightarrow> string \<Rightarrow> bool" where
  "strings_HasPrefix s p \<longleftrightarrow> prefix p s"

definition strings_TrimPrefix :: "string \<Rightarrow> string \<Rightarrow> string" where
  "strings_TrimPrefix s p = (if strings_HasPrefix s p then drop (length p) s else s)"

fun strings_Contains :: "string \<Rightarrow> string \<Rightarrow> bool" where
  "strings_Contains [] sub \<longleftrightarrow> sub = []"
| "strings_Contains (c # cs) sub \<longleftrightarrow> prefix sub (c # cs) \<or> strings_Contains cs sub"

text \<open>
  \<open>strings.Fields\<close>: the maximal runs of characters that are not white space, in order.
  \<open>fieldsAcc cur s\<close> scans \<open>s\<close> with the field read so far in \<open>cur\<close>.
\<close>

fun fieldsAcc :: "string \<Rightarrow> string \<Rightarrow> string list" where
  "fieldsAcc cur [] = (if cur = [] then [] else [cur])"
| "fieldsAcc cur (c # cs) =
     (if unicode_IsSpace c then (if cur = [] then fieldsAcc [] cs else cur # fieldsAcc [] cs)
      else fieldsAcc (cur @ [c]) cs)"

definition strings_Fields :: "string \<Rightarrow> string list" where
  "strings_Fields s = fieldsAcc [] s"

text \<open>
  Package \<open>path/filepath\<close> on Unix: the separator is the slash and there is no volume name.
  \<open>splitSlash cur s\<close> cuts \<open>s\<close> at every slash, keeping empty elements.
\<close>

fun splitSlash :: "string \<Rightarrow> string \<Rightarrow> string list" where
  "splitSlash cur [] = [cur]"
| "splitSlash cur (c # cs) =
     (if c = CHR ''/'' then cur # splitSlash [] cs else splitSlash (cur @ [c]) cs)"

fun joinSlash :: "string list \<Rightarrow> string" where
  "joinSlash [] = []"
| "joinSlash [e] = e"
| "joinSlash (e # es) = e @ ''/'' @ joinSlash es"

text \<open>
  The loop of \<open>filepath.Clean\<close> over the elements of the path: empty elements and
  \<open>.\<close> are dropped; \<open>..\<close> removes the last element written when there is one that is
  not itself \<open>..\<close>, is dropped at the root, and is kept otherwise.
\<close>

fun cleanElems :: "bool \<Rightarrow> string list \<Rightarrow> string list \<Rightarrow> string list" where
  "cleanElems rooted out [] = out"
| "cleanElems rooted out (e # es) =
     (if e = [] \<or> e = ''.'' then cleanElems rooted out es
      else if e = ''..'' then
        (if out \<noteq> [] \<and> last out \<noteq> ''..'' then cleanElems rooted (butlast out) es
         else if \<not> rooted then cleanElems rooted (out @ [''..'']) es
         else cleanElems rooted out es)
      else cleanElems rooted (out @ [e]) es)"

definition filepath_Clean :: "string \<Rightarrow> string" where
  "filepath_Clean path =
     (if path = [] then ''.''
      else
        let rooted = (hd path = CHR ''/'');
            out = cleanElems rooted [] (splitSlash [] path);
            s = (if rooted then ''/'' else []) @ joinSlash out
        in if s = [] then ''.'' else s)"

text \<open>\<open>filepath.Dir\<close>: the path up to and including its last slash, cleaned.\<close>

definition filepath_Dir :: "string \<Rightarrow> string" where
  "filepath_Dir path = filepath_Clean (rev (dropWhile (\<lambda>c. c \<noteq> CHR ''/'') (rev path)))"

text \<open>
  \<open>filepath.Base\<close>: the last element of the path, trailing slashes removed first; \<open>.\<close> for
  the empty path and a single slash for a path of slashes only.
\<close>

definition filepath_Base :: "string \<Rightarrow> string" where
  "filepath_Base path =
     (if path = [] then ''.''
      else
        let p = rev (dropWhile (\<lambda>c. c = CHR ''/'') (rev path));
            b = rev (takeWhile (\<lambda>c. c \<noteq> CHR ''/'') (rev p))
        in if b = [] then ''/'' else b)"

text \<open>\<open>filepath.Join\<close> of two elements: empty elements are ignored, the result is cleaned.\<close>

definition filepath_Join :: "string \<Rightarrow> string \<Rightarrow> string" where
  "filepath_Join a b =
     (if a \<noteq> [] then filepath_Clean (a @ ''/'' @ b)
      else if b \<noteq> [] then filepath_Clean b
      else [])"

definition filepath_IsAbs :: "string \<Rightarrow> bool" where
  "filepath_IsAbs path \<longleftrightarrow> strings_HasPrefix path ''/''"

section \<open>The line grammar\<close>

text \<open>
  Package \<open>regexp\<close> returns the match a backtracking search finds first. Both revisions of
  \<open>lineRegex\<close> are a sequence of single character classes, each taken once, or repeated
  greedily (\<open>*\<close>, \<open>+\<close>), some of them captured, between \<open>^\<close> and \<open>$\<close>. An \<open>Item\<close> is
  one of these: its class, its repetition, and whether it is a capture group.
\<close>

datatype quant = Once | Star | Plus

datatype item = Item "char \<Rightarrow> bool" quant bool

definition capture :: "bool \<Rightarrow> string \<Rightarrow> string list option \<Rightarrow> string list option" where
  "capture cap txt r = (if cap then map_option (\<lambda>gs. txt # gs) r else r)"

text \<open>
  \<open>matchItems its s\<close> matches the whole of \<open>s\<close> against the items and returns the captured
  groups in order. \<open>greedy c cap its acc s\<close> is inside a repetition of class \<open>c\<close> that has
  taken \<open>acc\<close> so far: it first tries to take one more character, and only when the rest
  then fails does it stop the repetition here.
\<close>

fun matchItems :: "item list \<Rightarrow> string \<Rightarrow> string list option"
  and greedy :: "(char \<Rightarrow> bool) \<Rightarrow> bool \<Rightarrow> item list \<Rightarrow> string \<Rightarrow> string \<Rightarrow> string list option"
where
  "matchItems [] s = (if s = [] then Some [] else None)"
| "matchItems (Item c Once cap # its) [] = None"
| "matchItems (Item c Once cap # its) (x # xs) =
     (if c x then capture cap [x] (matchItems its xs) else None)"
| "matchItems (Item c Star cap # its) s = greedy c cap its [] s"
| "matchItems (Item c Plus cap # its) [] = None"
| "matchItems (Item c Plus cap # its) (x # xs) =
     (if c x then greedy c cap its [x] xs else None)"
| "greedy c cap its acc [] = capture cap acc (matchItems its [])"
| "greedy c cap its acc (x # xs) =
     (if c x then
        (case greedy c cap its (acc @ [x]) xs of
           Some r \<Rightarrow> Some r
         | None \<Rightarrow> capture cap acc (matchItems its (x # xs)))
      else capture cap acc (matchItems its (x # xs)))"

text \<open>The classes \<open>\s\<close>, \<open>[^\s]\<close>, \<open>.\<close> (any character but line feed) and \<open>[\?\+]\<close>.\<close>

definition re_space :: "char \<Rightarrow> bool" where
  "re_space c \<longleftrightarrow>
     c = CHR 0x09 \<or> c = CHR 0x0A \<or> c = CHR 0x0C \<or> c = CHR 0x0D \<or> c = CHR 0x20"

definition re_nonspace :: "char \<Rightarrow> bool" where
  "re_nonspace c \<longleftrightarrow> \<not> re_space c"

definition re_dot :: "char \<Rightarrow> bool" where
  "re_dot c \<longleftrightarrow> c \<noteq> CHR 0x0A"

definition re_marks :: "char \<Rightarrow> bool" where
  "re_marks c \<longleftrightarrow> c = CHR ''?'' \<or> c = CHR ''+''"

text \<open>
  The later revision: \<^verbatim>\<open>^L[\?\+]*\s+([^\s]+)\s+[^\s]*\s+[^\s]*\s+[^\s]*\s+(.*)$\<close>
\<close>

definition lineRegex :: "item list" where
  "lineRegex =
     [Item (\<lambda>c. c = CHR ''L'') Once False, Item re_marks Star False,
      Item re_space Plus False, Item re_nonspace Plus True,
      Item re_space Plus False, Item re_nonspace Star False,
      Item re_space Plus False, Item re_nonspace Star False,
      Item re_space Plus False, Item re_nonspace Star False,
      Item re_space Plus False, Item re_dot Star True]"

text \<open>
  The two earlier revisions: \<^verbatim>\<open>^L\s+([^\s]+)\s+[^\s]*\s+[^\s]*\s+[^\s]*\s+(.*)$\<close>
\<close>

definition lineRegex_v1 :: "item list" where
  "lineRegex_v1 =
     [Item (\<lambda>c. c = CHR ''L'') Once False,
      Item re_space Plus False, Item re_nonspace Plus True,
      Item re_space Plus False, Item re_nonspace Star False,
      Item re_space Plus False, Item re_nonspace Star False,
      Item re_space Plus False, Item re_nonspace Star False,
      Item re_space Plus False, Item re_dot Star True]"

text \<open>
  \<open>FindStringSubmatch\<close> for these expressions: \<open>None\<close> is Go's \<open>nil\<close>, and
  \<open>Some (p, t)\<close> gives \<open>matches[1]\<close> and \<open>matches[2]\<close>.
\<close>

definition FindStringSubmatch :: "item list \<Rightarrow> string \<Rightarrow> (string \<times> string) option" where
  "FindStringSubmatch re line =
     (case matchItems re line of
        Some [p, t] \<Rightarrow> Some (p, t)
      | _ \<Rightarrow> None)"

section \<open>The world the program runs in\<close>

text \<open>
  What the program reads from the file system, as the four calls it makes:
  \<open>os.Stat\<close> (whether it returns no error), \<open>os.ReadDir\<close> (the entries, \<open>None\<close> on
  an error), \<open>os.Open\<close> followed by a \<open>bufio.Scanner\<close> (the lines the scanner yields,
  \<open>None\<close> when the file cannot be opened) and \<open>filepath.Glob\<close> (the matching paths,
  \<open>None\<close> on an error).
\<close>

datatype dirent = DirEntry (entry_Name: string) (entry_IsDir: bool)

record filesystem =
  os_Stat :: "string \<Rightarrow> bool"
  os_ReadDir :: "string \<Rightarrow> dirent list option"
  os_Open :: "string \<Rightarrow> string list option"
  filepath_Glob :: "string \<Rightarrow> string list option"

text \<open>
  One constructor for each print statement of the program, with the values it formats;
  the colours and the wording of the format strings are left out.
\<close>

datatype msg =
    FactoryDefault string string
  | FactoryExists string
  | FactoryMissingOptional string
  | FactoryMissing string
  | ExplicitTarget string string
  | ResolvedTarget string
  | TargetExists string
  | TargetMissingOptional string
  | TargetMissing string
  | RecreateNote
  | IgnoreRule string string
  | IncompleteDir string
  | MissingFiles "string list"
  | SummaryHeader
  | SummaryUnreadable string
  | SummaryDirIncomplete string
  | SummaryDir string
  | SummaryLinked "string list"
  | SummaryIgnored "string list"
  | SummaryMissing "string list"
  | SummaryAllLinked
  | ErrorFindingFiles
  | ErrorOpeningFile string

text \<open>The values of \<open>fmt.Errorf\<close>; Go's \<open>nil\<close> error is \<open>None\<close>.\<close>

datatype error =
    MissingFactoryTarget string
  | MissingTarget string
  | IncompleteLinking

record world =
  fs :: filesystem
  stdout :: "msg list"
  stderr :: "msg list"

definition say :: "msg \<Rightarrow> world \<Rightarrow> world" where
  "say m w = w\<lparr>stdout := stdout w @ [m]\<rparr>"

definition complain :: "msg \<Rightarrow> world \<Rightarrow> world" where
  "complain m w = w\<lparr>stderr := stderr w @ [m]\<rparr>"

text \<open>
  A Go \<open>map[string]bool\<close> is an association list; reading a key that is absent gives
  \<open>false\<close>. \<open>linkedDirs\<close> maps a directory to the set of file names linked in it. Go
  ranges over a map in an unspecified order; the model ranges in the order of the list.
\<close>

type_synonym boolmap = "(string \<times> bool) list"

type_synonym linkedDirs = "(string \<times> boolmap) list"

definition mapBool :: "boolmap \<Rightarrow> string \<Rightarrow> bool" where
  "mapBool m k = (case map_of m k of Some b \<Rightarrow> b | None \<Rightarrow> False)"

section \<open>The program\<close>

text \<open>
  The repository holds three revisions of one program. The later revision is the second
  part of \<^verbatim>\<open>src/main.go\<close> (lines 231 to 555); it handles \<open>L\<close>, \<open>L?\<close> and
  \<open>L+\<close>. The two earlier revisions, the first part of \<^verbatim>\<open>src/main.go\<close> (lines 1 to
  230) and \<^verbatim>\<open>src/unnamed/part_000\<close>, have the same code and differ only in comments and in the wording of what they print.
  A definition without suffix is of the later revision, one with the suffix \<open>_v1\<close> of
  the earlier ones. \<open>cleanQuotes\<close>, \<open>factoryTarget\<close> and \<open>loadIgnoreFiles\<close> are the
  same in all three.
\<close>

definition cleanQuotes :: "string \<Rightarrow> string" where
  "cleanQuotes s = strings_Trim (strings_Trim (strings_TrimSpace s) [CHR 0x22]) [CHR 0x27]"

definition resolveTargetPath :: "string \<Rightarrow> string \<Rightarrow> string" where
  "resolveTargetPath symlinkPath target =
     (if filepath_IsAbs target then target
      else
        let symlinkDir = filepath_Dir symlinkPath
        in filepath_Clean (filepath_Join symlinkDir target))"

definition factoryTarget :: "string \<Rightarrow> string" where
  "factoryTarget path =
     (let filename = filepath_Base path
      in if filename = ''etc'' \<or> strings_HasPrefix path ''/etc/''
         then ''/usr/share/factory/etc/'' @ strings_TrimPrefix path ''/etc/''
         else if filename = ''var'' \<or> strings_HasPrefix path ''/var/''
         then ''/usr/share/factory/var/'' @ strings_TrimPrefix path ''/var/''
         else ''/usr/share/factory'' @ path)"

definition isBaseDir :: "string \<Rightarrow> bool" where
  "isBaseDir dir \<longleftrightarrow>
     dir \<in> set [''/etc'', ''/var'', ''/usr'', ''/bin'', ''/sbin'', ''/lib'', ''/lib64'', ''/proc'',
                ''/run'']"

definition isBaseDir_v1 :: "string \<Rightarrow> bool" where
  "isBaseDir_v1 dir \<longleftrightarrow>
     dir \<in> set [''/etc'', ''/var'', ''/usr'', ''/bin'', ''/sbin'', ''/lib'', ''/lib64'']"

text \<open>
  The block that records a link, written out three times in the source:
  \<^verbatim>\<open>if _, ok := linkedDirs[dir]; !ok { linkedDirs[dir] = make(map[string]bool) }\<close>
  \<^verbatim>\<open>linkedDirs[dir][name] = true\<close>
\<close>

definition linkedDirs_add :: "string \<Rightarrow> string \<Rightarrow> linkedDirs \<Rightarrow> linkedDirs" where
  "linkedDirs_add dir name linkedDirs =
     (case map_of linkedDirs dir of
        None \<Rightarrow> AList.update dir (AList.update name True []) linkedDirs
      | Some files \<Rightarrow> AList.update dir (AList.update name True files) linkedDirs)"

text \<open>
  Around it: \<^verbatim>\<open>dir := filepath.Dir(t); if !isBaseDir(dir) { ... filepath.Base(t) ... }\<close>,
  with the \<open>isBaseDir\<close> of the revision.
\<close>

definition trackTarget :: "(string \<Rightarrow> bool) \<Rightarrow> string \<Rightarrow> linkedDirs \<Rightarrow> linkedDirs" where
  "trackTarget isBase t linkedDirs =
     (let dir = filepath_Dir t
      in if \<not> isBase dir then linkedDirs_add dir (filepath_Base t) linkedDirs
         else linkedDirs)"

text \<open>The end of the later \<open>processLine\<close>: the note for \<open>L+\<close>, then \<open>return nil\<close>.\<close>

definition finishLine :: "bool \<Rightarrow> linkedDirs \<Rightarrow> world \<Rightarrow> error option \<times> linkedDirs \<times> world" where
  "finishLine recreate linkedDirs w =
     (None, linkedDirs, if recreate then say RecreateNote w else w)"

text \<open>\<open>processLine\<close> of the later revision (the one that handles \<open>L\<close>, \<open>L?\<close> and \<open>L+\<close>).\<close>

definition processLine :: "string \<Rightarrow> linkedDirs \<Rightarrow> world \<Rightarrow> error option \<times> linkedDirs \<times> world" where
  "processLine line linkedDirs w =
     (if \<not> strings_HasPrefix line ''L'' then (None, linkedDirs, w)
      else
        let pfx = (if length line > 1 \<and> (line ! 1 = CHR ''?'' \<or> line ! 1 = CHR ''+'')
                   then take 2 line else take 1 line);
            targetOptional = (pfx = ''L?'');
            recreate = (pfx = ''L+'')
        in case FindStringSubmatch lineRegex line of
             None \<Rightarrow> (None, linkedDirs, w)
           | Some (path, targetField) \<Rightarrow>
               let fields = strings_Fields targetField;
                   target = (if length fields > 0 then cleanQuotes (last fields) else [])
               in if target = [] \<or> target = ''-'' then
                    (let ft = factoryTarget path;
                         w1 = say (FactoryDefault path ft) w
                     in if os_Stat (fs w1) ft then
                          finishLine recreate (trackTarget isBaseDir ft linkedDirs)
                            (say (FactoryExists ft) w1)
                        else if targetOptional then
                          finishLine recreate (trackTarget isBaseDir ft linkedDirs)
                            (say (FactoryMissingOptional ft) w1)
                        else
                          (Some (MissingFactoryTarget ft), linkedDirs, say (FactoryMissing ft) w1))
                  else
                    (let resolvedTarget = resolveTargetPath path target;
                         w1 = say (ExplicitTarget path target) w;
                         w2 = (if resolvedTarget \<noteq> target
                               then say (ResolvedTarget resolvedTarget) w1 else w1)
                     in if os_Stat (fs w2) resolvedTarget then
                          finishLine recreate (trackTarget isBaseDir resolvedTarget linkedDirs)
                            (say (TargetExists resolvedTarget) w2)
                        else if targetOptional then
                          finishLine recreate linkedDirs (say (TargetMissingOptional resolvedTarget) w2)
                        else
                          (Some (MissingTarget resolvedTarget), linkedDirs,
                           say (TargetMissing resolvedTarget) w2)))"

text \<open>\<open>processLine\<close> of the two earlier revisions.\<close>

definition processLine_v1 :: "string \<Rightarrow> linkedDirs \<Rightarrow> world \<Rightarrow> error option \<times> linkedDirs \<times> world" where
  "processLine_v1 line linkedDirs w =
     (case FindStringSubmatch lineRegex_v1 line of
        None \<Rightarrow> (None, linkedDirs, w)
      | Some (path, rest) \<Rightarrow>
          let target = cleanQuotes rest
          in if target = [] \<or> target = ''-'' then
               (let ft = factoryTarget path;
                    w1 = say (FactoryDefault path ft) w
                in if os_Stat (fs w1) ft then (None, linkedDirs, say (FactoryExists ft) w1)
                   else (Some (MissingFactoryTarget ft), linkedDirs, say (FactoryMissing ft) w1))
             else
               (let w1 = say (ExplicitTarget path target) w
                in if os_Stat (fs w1) target then
                     (None, trackTarget isBaseDir_v1 target linkedDirs, say (TargetExists target) w1)
                   else (Some (MissingTarget target), linkedDirs, say (TargetMissing target) w1)))"

text \<open>
  \<open>loadIgnoreFiles\<close>: the loop over the lines of one ignore file, the loop over the
  files, and the function. A file that cannot be opened is passed over.
\<close>

fun ignoreLines :: "string \<Rightarrow> string list \<Rightarrow> boolmap \<times> world \<Rightarrow> boolmap \<times> world" where
  "ignoreLines file [] (ignoredFiles, w) = (ignoredFiles, w)"
| "ignoreLines file (raw # rest) (ignoredFiles, w) =
     (let line = strings_TrimSpace raw
      in if line = [] \<or> strings_HasPrefix line ''#'' then ignoreLines file rest (ignoredFiles, w)
         else ignoreLines file rest
                (AList.update line True ignoredFiles, say (IgnoreRule line file) w))"

fun ignoreFiles :: "string list \<Rightarrow> boolmap \<times> world \<Rightarrow> boolmap \<times> world" where
  "ignoreFiles [] (ignoredFiles, w) = (ignoredFiles, w)"
| "ignoreFiles (file # files) (ignoredFiles, w) =
     (case os_Open (fs w) file of
        None \<Rightarrow> ignoreFiles files (ignoredFiles, w)
      | Some lines \<Rightarrow> ignoreFiles files (ignoreLines file lines (ignoredFiles, w)))"

definition loadIgnoreFiles :: "world \<Rightarrow> boolmap \<times> world" where
  "loadIgnoreFiles w =
     (case filepath_Glob (fs w) ''/usr/share/tmpfiles.d/*.ignore'' of
        None \<Rightarrow> ([], w)
      | Some files \<Rightarrow> ignoreFiles files ([], w))"

text \<open>
  The inner loop of \<open>checkDirectoryCompleteness\<close>: the names of the entries that are not
  directories, not ignored under their full path, and not linked under their name.
\<close>

fun missingFiles :: "string \<Rightarrow> boolmap \<Rightarrow> boolmap \<Rightarrow> dirent list \<Rightarrow> string list" where
  "missingFiles dir linkedFiles ignoredFiles [] = []"
| "missingFiles dir linkedFiles ignoredFiles (entry # entries) =
     (if entry_IsDir entry then missingFiles dir linkedFiles ignoredFiles entries
      else
        let fullPath = filepath_Join dir (entry_Name entry)
        in if mapBool ignoredFiles fullPath then missingFiles dir linkedFiles ignoredFiles entries
           else if \<not> mapBool linkedFiles (entry_Name entry)
           then entry_Name entry # missingFiles dir linkedFiles ignoredFiles entries
           else missingFiles dir linkedFiles ignoredFiles entries)"

text \<open>
  The guard the later revision puts at the head of its loops over \<open>linkedDirs\<close>; the
  earlier revisions have none.
\<close>

definition skippedDir :: "string \<Rightarrow> bool" where
  "skippedDir dir \<longleftrightarrow> strings_Contains dir ''/.git'' \<or> dir = ''.'' \<or> dir = ''..''"

definition skippedDir_v1 :: "string \<Rightarrow> bool" where
  "skippedDir_v1 dir \<longleftrightarrow> False"

text \<open>
  The outer loop of \<open>checkDirectoryCompleteness\<close>, carrying \<open>hadError\<close>; \<open>skip\<close> is the
  guard of the revision.
\<close>

fun checkDirs :: "(string \<Rightarrow> bool) \<Rightarrow> linkedDirs \<Rightarrow> boolmap \<Rightarrow> bool \<times> world \<Rightarrow> bool \<times> world" where
  "checkDirs skip [] ignoredFiles (hadError, w) = (hadError, w)"
| "checkDirs skip ((dir, linkedFiles) # rest) ignoredFiles (hadError, w) =
     (if skip dir then checkDirs skip rest ignoredFiles (hadError, w)
      else
        case os_ReadDir (fs w) dir of
          None \<Rightarrow> checkDirs skip rest ignoredFiles (hadError, w)
        | Some entries \<Rightarrow>
            let missing = missingFiles dir linkedFiles ignoredFiles entries
            in if length missing > 0
               then checkDirs skip rest ignoredFiles
                      (True, say (MissingFiles missing) (say (IncompleteDir dir) w))
               else checkDirs skip rest ignoredFiles (hadError, w))"

definition checkCompleteness ::
  "(string \<Rightarrow> bool) \<Rightarrow> linkedDirs \<Rightarrow> boolmap \<Rightarrow> world \<Rightarrow> error option \<times> world" where
  "checkCompleteness skip linkedDirs ignoredFiles w =
     (let (hadError, w') = checkDirs skip linkedDirs ignoredFiles (False, w)
      in if hadError then (Some IncompleteLinking, w') else (None, w'))"

definition checkDirectoryCompleteness :: "linkedDirs \<Rightarrow> boolmap \<Rightarrow> world \<Rightarrow> error option \<times> world" where
  "checkDirectoryCompleteness = checkCompleteness skippedDir"

definition checkDirectoryCompleteness_v1 :: "linkedDirs \<Rightarrow> boolmap \<Rightarrow> world \<Rightarrow> error option \<times> world" where
  "checkDirectoryCompleteness_v1 = checkCompleteness skippedDir_v1"

text \<open>\<open>printSummary\<close>: the three lists of one directory, then the loop, then the function.\<close>

fun summaryLists ::
  "string \<Rightarrow> boolmap \<Rightarrow> boolmap \<Rightarrow> dirent list \<Rightarrow> string list \<times> string list \<times> string list" where
  "summaryLists dir linkedFiles ignoredFiles [] = ([], [], [])"
| "summaryLists dir linkedFiles ignoredFiles (entry # entries) =
     (let (missing, ignored, actualLinked) = summaryLists dir linkedFiles ignoredFiles entries
      in if entry_IsDir entry then (missing, ignored, actualLinked)
         else if mapBool ignoredFiles (filepath_Join dir (entry_Name entry))
         then (missing, entry_Name entry # ignored, actualLinked)
         else if mapBool linkedFiles (entry_Name entry)
         then (missing, ignored, entry_Name entry # actualLinked)
         else (entry_Name entry # missing, ignored, actualLinked))"

definition summaryOfDir :: "string \<Rightarrow> string list \<times> string list \<times> string list \<Rightarrow> world \<Rightarrow> world" where
  "summaryOfDir dir found w =
     (let (missing, ignored, actualLinked) = found;
          w1 = (if length missing > 0 then say (SummaryDirIncomplete dir) w
                else say (SummaryDir dir) w);
          w2 = (if length actualLinked > 0 then say (SummaryLinked actualLinked) w1 else w1);
          w3 = (if length ignored > 0 then say (SummaryIgnored ignored) w2 else w2)
      in if length missing > 0 then say (SummaryMissing missing) w3
         else say SummaryAllLinked w3)"

fun summaryDirs :: "(string \<Rightarrow> bool) \<Rightarrow> linkedDirs \<Rightarrow> boolmap \<Rightarrow> world \<Rightarrow> world" where
  "summaryDirs skip [] ignoredFiles w = w"
| "summaryDirs skip ((dir, linkedFiles) # rest) ignoredFiles w =
     (if skip dir then summaryDirs skip rest ignoredFiles w
      else
        case os_ReadDir (fs w) dir of
          None \<Rightarrow> summaryDirs skip rest ignoredFiles (say (SummaryUnreadable dir) w)
        | Some entries \<Rightarrow>
            summaryDirs skip rest ignoredFiles
              (summaryOfDir dir (summaryLists dir linkedFiles ignoredFiles entries) w))"

definition printSummary :: "linkedDirs \<Rightarrow> boolmap \<Rightarrow> world \<Rightarrow> world" where
  "printSummary linkedDirs ignoredFiles w =
     summaryDirs skippedDir linkedDirs ignoredFiles (say SummaryHeader w)"

definition printSummary_v1 :: "linkedDirs \<Rightarrow> boolmap \<Rightarrow> world \<Rightarrow> world" where
  "printSummary_v1 linkedDirs ignoredFiles w =
     summaryDirs skippedDir_v1 linkedDirs ignoredFiles (say SummaryHeader w)"

text \<open>
  \<open>main\<close>. The state of its loops is the exit code, \<open>linkedDirs\<close> and the world.
  \<open>scanLine\<close> is the body of the loop over the lines of one file, \<open>scanFile\<close> the body of
  the loop over the files.
\<close>

type_synonym scan = "int \<times> linkedDirs \<times> world"

definition scanLine :: "string \<Rightarrow> scan \<Rightarrow> scan" where
  "scanLine raw st =
     (let (exitCode, linkedDirs, w) = st;
          line = strings_TrimSpace raw
      in if line = [] \<or> strings_HasPrefix line ''#'' then st
         else if strings_HasPrefix line ''L'' then
           (case processLine line linkedDirs w of
              (Some err, linkedDirs', w') \<Rightarrow> (1, linkedDirs', w')
            | (None, linkedDirs', w') \<Rightarrow> (exitCode, linkedDirs', w'))
         else st)"

definition scanLine_v1 :: "string \<Rightarrow> scan \<Rightarrow> scan" where
  "scanLine_v1 line st =
     (let (exitCode, linkedDirs, w) = st
      in if \<not> strings_HasPrefix line ''L'' \<or> strings_HasPrefix line ''L?''
            \<or> strings_HasPrefix line ''L+'' then st
         else
           (case processLine_v1 line linkedDirs w of
              (Some err, linkedDirs', w') \<Rightarrow> (1, linkedDirs', w')
            | (None, linkedDirs', w') \<Rightarrow> (exitCode, linkedDirs', w')))"

definition scanFile :: "(string \<Rightarrow> scan \<Rightarrow> scan) \<Rightarrow> string \<Rightarrow> scan \<Rightarrow> scan" where
  "scanFile body file st =
     (let (exitCode, linkedDirs, w) = st
      in case os_Open (fs w) file of
           None \<Rightarrow> (1, linkedDirs, complain (ErrorOpeningFile file) w)
         | Some lines \<Rightarrow> fold body lines st)"

definition main :: "world \<Rightarrow> int \<times> world" where
  "main w =
     (case filepath_Glob (fs w) ''/usr/lib/tmpfiles.d/*.conf'' of
        None \<Rightarrow> (1, complain ErrorFindingFiles w)
      | Some files \<Rightarrow>
          let (exitCode, linkedDirs, w1) = fold (scanFile scanLine) files (0, [], w);
              (ignoredFiles, w2) = loadIgnoreFiles w1;
              (err, w3) = checkDirectoryCompleteness linkedDirs ignoredFiles w2;
              exitCode' = (if err \<noteq> None then 1 else exitCode);
              w4 = printSummary linkedDirs ignoredFiles w3
          in (exitCode', w4))"

definition main_v1 :: "world \<Rightarrow> int \<times> world" where
  "main_v1 w =
     (case filepath_Glob (fs w) ''/usr/lib/tmpfiles.d/*.conf'' of
        None \<Rightarrow> (1, complain ErrorFindingFiles w)
      | Some files \<Rightarrow>
          let (exitCode, linkedDirs, w1) = fold (scanFile scanLine_v1) files (0, [], w);
              (ignoredFiles, w2) = loadIgnoreFiles w1;
              (err, w3) = checkDirectoryCompleteness_v1 linkedDirs ignoredFiles w2;
              exitCode' = (if err \<noteq> None then 1 else exitCode);
              w4 = printSummary_v1 linkedDirs ignoredFiles w3
          in (exitCode', w4))"

section \<open>Notions the properties are stated with\<close>

text \<open>
  The target a declaration names: the last field of what the grammar leaves after the
  fourth separator, quotes removed, or nothing when there is no field (later revision).
\<close>

definition declaredTarget :: "string \<Rightarrow> string" where
  "declaredTarget targetField =
     (if strings_Fields targetField = [] then []
      else cleanQuotes (last (strings_Fields targetField)))"

text \<open>The path whose existence decides a declaration of the later revision.\<close>

definition checkedTarget :: "string \<Rightarrow> string \<Rightarrow> string" where
  "checkedTarget path target =
     (if target = [] \<or> target = ''-'' then factoryTarget path
      else resolveTargetPath path target)"

text \<open>A small file system and an initial world, to run the program on.\<close>

definition example_fs :: filesystem where
  "example_fs =
     \<lparr>os_Stat = (\<lambda>p. p = ''/opt/x/t'' \<or> p = ''/usr/share/factory/etc/motd'' \<or>
                       p = ''/etc/hostname'' \<or> p = ''/srv/.git/config''),
      os_ReadDir = (\<lambda>p. if p = ''/opt/x''
                          then Some [DirEntry ''t'' False, DirEntry ''u'' False, DirEntry ''d'' True]
                          else if p = ''/srv/.git''
                          then Some [DirEntry ''config'' False, DirEntry ''HEAD'' False]
                          else None),
      os_Open = (\<lambda>p. if p = ''/usr/lib/tmpfiles.d/a.conf''
                       then Some [''# links'', ''  L+ /a/b - - - - ../opt/x/t'', ''d /x'',
                                  ''L? /q - - - - -'']
                       else if p = ''/usr/share/tmpfiles.d/i.ignore'' then Some [''/opt/x/u'']
                       else None),
      filepath_Glob = (\<lambda>p. if p = ''/usr/lib/tmpfiles.d/*.conf''
                             then Some [''/usr/lib/tmpfiles.d/a.conf'']
                             else if p = ''/usr/share/tmpfiles.d/*.ignore''
                             then Some [''/usr/share/tmpfiles.d/i.ignore'']
                             else Some [])\<rparr>"

definition example_world :: world where
  "example_world = \<lparr>fs = example_fs, stdout = [], stderr = []\<rparr>"

text \<open>The directory a message of the completeness check or of the summary names.\<close>

fun msgDir :: "msg \<Rightarrow> string option" where
  "msgDir (IncompleteDir d) = Some d"
| "msgDir (SummaryUnreadable d) = Some d"
| "msgDir (SummaryDirIncomplete d) = Some d"
| "msgDir (SummaryDir d) = Some d"
| "msgDir m = None"

text \<open>
  \<open>printsOnly P w w'\<close>: from \<open>w\<close> to \<open>w'\<close> the file system is the same and the
  standard output has grown by messages that satisfy \<open>P\<close>.
\<close>

definition printsOnly :: "(msg \<Rightarrow> bool) \<Rightarrow> world \<Rightarrow> world \<Rightarrow> bool" where
  "printsOnly P w w' \<longleftrightarrow>
     fs w' = fs w \<and> (\<exists>msgs. stdout w' = stdout w @ msgs \<and> list_all P msgs)"

text \<open>
  What a step of the loops of \<open>main\<close> keeps: no base directory among the keys of
  \<open>linkedDirs\<close>, and an output that names no directory.
\<close>

definition scanInv :: "(string \<Rightarrow> bool) \<Rightarrow> scan \<Rightarrow> scan \<Rightarrow> bool" where
  "scanInv isBase st st' \<longleftrightarrow>
     ((\<forall>e\<in>set (fst (snd st)). \<not> isBase (fst e)) \<longrightarrow>
      (\<forall>e\<in>set (fst (snd st')). \<not> isBase (fst e))) \<and>
     printsOnly (\<lambda>m. msgDir m = None) (snd (snd st)) (snd (snd st'))"

text \<open>
  A line (as \<open>processLine\<close> receives it) is a declaration that is not optional and
  whose target, explicit or factory default, does not exist. In the earlier revisions the
  target is all that follows the fourth separator, and it is checked as it is written.
\<close>

definition requiredTargetMissing :: "filesystem \<Rightarrow> string \<Rightarrow> bool" where
  "requiredTargetMissing f line \<longleftrightarrow>
     (case FindStringSubmatch lineRegex line of
        None \<Rightarrow> False
      | Some (path, tf) \<Rightarrow>
          \<not> strings_HasPrefix line ''L?'' \<and> \<not> os_Stat f (checkedTarget path (declaredTarget tf)))"



text \<open>
  A second file system: one configuration file with one \<open>L+\<close> declaration whose target
  does not exist.
\<close>

definition recreate_fs :: filesystem where
  "recreate_fs =
     \<lparr>os_Stat = (\<lambda>p. False),
      os_ReadDir = (\<lambda>p. None),
      os_Open = (\<lambda>p. if p = ''/usr/lib/tmpfiles.d/a.conf''
                       then Some [''L+ /a - - - - /missing''] else None),
      filepath_Glob = (\<lambda>p. if p = ''/usr/lib/tmpfiles.d/*.conf''
                             then Some [''/usr/lib/tmpfiles.d/a.conf''] else Some [])\<rparr>"

definition recreate_world :: world where
  "recreate_world = \<lparr>fs = recreate_fs, stdout = [], stderr = []\<rparr>"












text \<open>
  A third file system, with one configuration file that holds the given lines. The only
  paths that exist are the directory \<open>/usr/share/factory/etc\<close> and the one file in it,
  \<open>bar\<close>.
\<close>

definition single_fs :: "string list \<Rightarrow> filesystem" where
  "single_fs lines =
     \<lparr>os_Stat = (\<lambda>p. p = ''/usr/share/factory/etc'' \<or> p = ''/usr/share/factory/etc/bar''),
      os_ReadDir = (\<lambda>p. if p = ''/usr/share/factory/etc'' then Some [DirEntry ''bar'' False]
                          else None),
      os_Open = (\<lambda>p. if p = ''/usr/lib/tmpfiles.d/a.conf'' then Some lines else None),
      filepath_Glob = (\<lambda>p. if p = ''/usr/lib/tmpfiles.d/*.conf''
                             then Some [''/usr/lib/tmpfiles.d/a.conf''] else Some [])\<rparr>"

definition single_world :: "string list \<Rightarrow> world" where
  "single_world lines = \<lparr>fs = single_fs lines, stdout = [], stderr = []\<rparr>"

section \<open>Basic facts\<close>

lemmas regex_eval = FindStringSubmatch_def lineRegex_def lineRegex_v1_def re_space_def
  re_nonspace_def re_dot_def re_marks_def capture_def

lemmas strings_eval = strings_TrimSpace_def strings_Trim_def strings_HasPrefix_def
  strings_TrimPrefix_def strings_Fields_def unicode_IsSpace_def cleanQuotes_def

lemmas path_eval = filepath_Clean_def filepath_Dir_def filepath_Base_def filepath_Join_def
  filepath_IsAbs_def

lemma fs_say [simp]: "fs (say m w) = fs w"
  by (simp add: say_def)

lemma stdout_say [simp]: "stdout (say m w) = stdout w @ [m]"
  by (simp add: say_def)

lemma stderr_say [simp]: "stderr (say m w) = stderr w"
  by (simp add: say_def)

lemma fs_complain [simp]: "fs (complain m w) = fs w"
  by (simp add: complain_def)

lemma stdout_complain [simp]: "stdout (complain m w) = stdout w"
  by (simp add: complain_def)

lemma stderr_complain [simp]: "stderr (complain m w) = stderr w @ [m]"
  by (simp add: complain_def)

lemma match_begins_L:
  assumes "FindStringSubmatch lineRegex line = Some pt"
  shows "strings_HasPrefix line ''L''"
proof (cases line)
  case Nil
  with assms show ?thesis by (simp add: FindStringSubmatch_def lineRegex_def)
next
  case (Cons c cs)
  with assms show ?thesis
    by (cases "c = CHR ''L''")
      (simp_all add: FindStringSubmatch_def lineRegex_def strings_HasPrefix_def)
qed

lemma processLine_nomatch:
  "FindStringSubmatch lineRegex line = None \<Longrightarrow> processLine line ld w = (None, ld, w)"
  by (simp add: processLine_def Let_def)

text \<open>\<open>processLine\<close> on a line the grammar accepts, with the directive read off the line.\<close>

lemma processLine_match:
  assumes m: "FindStringSubmatch lineRegex line = Some (path, tf)"
  shows "processLine line ld w =
    (let target = declaredTarget tf;
         optional = strings_HasPrefix line ''L?'';
         recreate = strings_HasPrefix line ''L+''
     in if target = [] \<or> target = ''-'' then
          (let ft = factoryTarget path; w1 = say (FactoryDefault path ft) w
           in if os_Stat (fs w) ft then
                finishLine recreate (trackTarget isBaseDir ft ld) (say (FactoryExists ft) w1)
              else if optional then
                finishLine recreate (trackTarget isBaseDir ft ld)
                  (say (FactoryMissingOptional ft) w1)
              else (Some (MissingFactoryTarget ft), ld, say (FactoryMissing ft) w1))
        else
          (let r = resolveTargetPath path target;
               w1 = say (ExplicitTarget path target) w;
               w2 = (if r \<noteq> target then say (ResolvedTarget r) w1 else w1)
           in if os_Stat (fs w) r then
                finishLine recreate (trackTarget isBaseDir r ld) (say (TargetExists r) w2)
              else if optional then finishLine recreate ld (say (TargetMissingOptional r) w2)
              else (Some (MissingTarget r), ld, say (TargetMissing r) w2)))"
proof -
  from match_begins_L[OF m] obtain cs where l: "line = CHR ''L'' # cs"
    by (cases line) (auto simp: strings_HasPrefix_def)
  show ?thesis
  proof (cases cs)
    case Nil
    with l m show ?thesis
      by (simp add: processLine_def Let_def declaredTarget_def strings_HasPrefix_def)
  next
    case (Cons c cs')
    with l m show ?thesis
      by (simp add: processLine_def Let_def declaredTarget_def strings_HasPrefix_def)
  qed
qed

lemma processLine_error_iff:
  assumes m: "FindStringSubmatch lineRegex line = Some (path, tf)"
  shows "fst (processLine line ld w) \<noteq> None \<longleftrightarrow>
     \<not> strings_HasPrefix line ''L?'' \<and> \<not> os_Stat (fs w) (checkedTarget path (declaredTarget tf))"
  by (simp add: processLine_match[OF m] Let_def checkedTarget_def finishLine_def)

lemma processLine_v1_nomatch:
  "FindStringSubmatch lineRegex_v1 line = None \<Longrightarrow> processLine_v1 line ld w = (None, ld, w)"
  by (simp add: processLine_v1_def)

lemma scanLine_nomatch:
  assumes "FindStringSubmatch lineRegex (strings_TrimSpace raw) = None"
  shows "scanLine raw (ec, ld, w) = (ec, ld, w)"
  using assms by (simp add: scanLine_def Let_def processLine_nomatch)

lemma scanLine_v1_nomatch:
  assumes "FindStringSubmatch lineRegex_v1 line = None"
  shows "scanLine_v1 line (ec, ld, w) = (ec, ld, w)"
  using assms by (simp add: scanLine_v1_def processLine_v1_nomatch)

section \<open>Lines the grammar rejects\<close>

text \<open>
  Claim C10. A line that the line grammar does not match (the expression yields no match),
  and in particular one that begins with \<open>L\<close>, is skipped in silence: \<open>processLine\<close>
  returns \<open>nil\<close> and leaves \<open>linkedDirs\<close> and the output as they were, and the loop of
  \<open>main\<close> keeps its exit code. This holds in the later revision, where \<open>main\<close> trims the
  line first, and in the earlier ones.
\<close>

theorem unmatched_line_skipped:
  "(FindStringSubmatch lineRegex line = None \<longrightarrow> processLine line ld w = (None, ld, w)) \<and>
   (FindStringSubmatch lineRegex (strings_TrimSpace raw) = None \<longrightarrow>
      scanLine raw (ec, ld, w) = (ec, ld, w)) \<and>
   (FindStringSubmatch lineRegex_v1 line = None \<longrightarrow>
      processLine_v1 line ld w = (None, ld, w) \<and> scanLine_v1 line (ec, ld, w) = (ec, ld, w))"
  by (simp add: processLine_nomatch processLine_v1_nomatch scanLine_nomatch scanLine_v1_nomatch)

theorem unmatched_line_skipped_witness:
  "strings_HasPrefix ''L /a b c d'' ''L'' \<and>
   FindStringSubmatch lineRegex ''L /a b c d'' = None \<and>
   FindStringSubmatch lineRegex_v1 ''L /a b c d'' = None \<and>
   strings_TrimSpace ''  L /a b c d '' = ''L /a b c d'' \<and>
   processLine ''L /a b c d'' [] example_world = (None, [], example_world) \<and>
   scanLine ''  L /a b c d '' (0, [], example_world) = (0, [], example_world) \<and>
   processLine_v1 ''L /a b c d'' [] example_world = (None, [], example_world) \<and>
   scanLine_v1 ''L /a b c d'' (0, [], example_world) = (0, [], example_world)"
proof -
  have a: "FindStringSubmatch lineRegex ''L /a b c d'' = None"
    and b: "FindStringSubmatch lineRegex_v1 ''L /a b c d'' = None"
    by (simp_all add: regex_eval)
  have t: "strings_TrimSpace ''  L /a b c d '' = ''L /a b c d''"
    by (simp add: strings_eval)
  have p: "strings_HasPrefix ''L /a b c d'' ''L''"
    by (simp add: strings_eval)
  from unmatched_line_skipped [of "''L /a b c d''" "[]" example_world "''  L /a b c d ''" 0] a b t p
  show ?thesis by simp
qed

section \<open>The optional directive\<close>

lemma v1_rejects_marks:
  assumes "strings_HasPrefix line ''L?'' \<or> strings_HasPrefix line ''L+''"
  shows "FindStringSubmatch lineRegex_v1 line = None"
proof -
  from assms obtain c cs where "line = CHR ''L'' # c # cs" "c = CHR ''?'' \<or> c = CHR ''+''"
    by (cases line; cases "tl line") (auto simp: strings_HasPrefix_def)
  then show ?thesis by (auto simp: regex_eval)
qed

lemma optional_not_recreate:
  "strings_HasPrefix line ''L?'' \<Longrightarrow> \<not> strings_HasPrefix line ''L+''"
  by (auto simp: strings_HasPrefix_def prefix_def)

text \<open>
  What holds for every line that begins with \<open>L?\<close>: \<open>processLine\<close> returns \<open>nil\<close> and
  writes nothing to the error stream, and the loop of \<open>main\<close> keeps its exit code at that
  line. When the line is a declaration whose target (explicit or factory default) is
  missing, what is printed is the heading of the declaration followed by the warning for an
  optional target. The earlier revisions do not read such a line.
\<close>

lemma optional_line_returns_nil:
  assumes opt: "strings_HasPrefix line ''L?''"
  shows "fst (processLine line ld w) = None \<and>
     stderr (snd (snd (processLine line ld w))) = stderr w \<and>
     (strings_TrimSpace raw = line \<longrightarrow> fst (scanLine raw (ec, ld, w)) = ec) \<and>
     (\<forall>path tf. FindStringSubmatch lineRegex line = Some (path, tf) \<longrightarrow>
        \<not> os_Stat (fs w) (checkedTarget path (declaredTarget tf)) \<longrightarrow>
        stdout (snd (snd (processLine line ld w))) =
          stdout w @
          (if declaredTarget tf = [] \<or> declaredTarget tf = ''-''
           then [FactoryDefault path (factoryTarget path),
                 FactoryMissingOptional (factoryTarget path)]
           else [ExplicitTarget path (declaredTarget tf)] @
                (if resolveTargetPath path (declaredTarget tf) \<noteq> declaredTarget tf
                 then [ResolvedTarget (resolveTargetPath path (declaredTarget tf))] else []) @
                [TargetMissingOptional (resolveTargetPath path (declaredTarget tf))])) \<and>
     processLine_v1 line ld w = (None, ld, w) \<and>
     scanLine_v1 line (ec, ld, w) = (ec, ld, w)"
proof -
  have rec: "\<not> strings_HasPrefix line ''L+''" by (rule optional_not_recreate[OF opt])
  have 1: "fst (processLine line ld w) = None \<and> stderr (snd (snd (processLine line ld w))) = stderr w"
  proof (cases "FindStringSubmatch lineRegex line")
    case None
    then show ?thesis by (simp add: processLine_nomatch)
  next
    case (Some pt)
    obtain path tf where "pt = (path, tf)" by (cases pt)
    with Some have m: "FindStringSubmatch lineRegex line = Some (path, tf)" by simp
    show ?thesis by (simp add: processLine_match[OF m] Let_def finishLine_def opt rec)
  qed
  have 2: "strings_TrimSpace raw = line \<longrightarrow> fst (scanLine raw (ec, ld, w)) = ec"
  proof
    assume t: "strings_TrimSpace raw = line"
    obtain e ld' w' where r: "processLine line ld w = (e, ld', w')" by (cases "processLine line ld w")
    with 1 have "e = None" by simp
    with r t show "fst (scanLine raw (ec, ld, w)) = ec"
      by (simp add: scanLine_def Let_def)
  qed
  have 3: "\<forall>path tf. FindStringSubmatch lineRegex line = Some (path, tf) \<longrightarrow>
        \<not> os_Stat (fs w) (checkedTarget path (declaredTarget tf)) \<longrightarrow>
        stdout (snd (snd (processLine line ld w))) =
          stdout w @
          (if declaredTarget tf = [] \<or> declaredTarget tf = ''-''
           then [FactoryDefault path (factoryTarget path),
                 FactoryMissingOptional (factoryTarget path)]
           else [ExplicitTarget path (declaredTarget tf)] @
                (if resolveTargetPath path (declaredTarget tf) \<noteq> declaredTarget tf
                 then [ResolvedTarget (resolveTargetPath path (declaredTarget tf))] else []) @
                [TargetMissingOptional (resolveTargetPath path (declaredTarget tf))])"
  proof (intro allI impI)
    fix path tf
    assume m: "FindStringSubmatch lineRegex line = Some (path, tf)"
      and miss: "\<not> os_Stat (fs w) (checkedTarget path (declaredTarget tf))"
    show "stdout (snd (snd (processLine line ld w))) =
          stdout w @
          (if declaredTarget tf = [] \<or> declaredTarget tf = ''-''
           then [FactoryDefault path (factoryTarget path),
                 FactoryMissingOptional (factoryTarget path)]
           else [ExplicitTarget path (declaredTarget tf)] @
                (if resolveTargetPath path (declaredTarget tf) \<noteq> declaredTarget tf
                 then [ResolvedTarget (resolveTargetPath path (declaredTarget tf))] else []) @
                [TargetMissingOptional (resolveTargetPath path (declaredTarget tf))])"
    proof (cases "declaredTarget tf = [] \<or> declaredTarget tf = ''-''")
      case True
      with miss show ?thesis
        by (auto simp add: processLine_match[OF m] Let_def finishLine_def opt rec checkedTarget_def)
    next
      case False
      with miss show ?thesis
        by (auto simp add: processLine_match[OF m] Let_def finishLine_def opt rec checkedTarget_def)
    qed
  qed
  have v: "FindStringSubmatch lineRegex_v1 line = None"
    using opt by (simp add: v1_rejects_marks)
  have 4: "processLine_v1 line ld w = (None, ld, w)"
    and 5: "scanLine_v1 line (ec, ld, w) = (ec, ld, w)"
    using v by (simp_all add: processLine_v1_nomatch scanLine_v1_nomatch)
  from 1 2 3 4 5 show ?thesis by blast
qed

lemma ex_match: "FindStringSubmatch lineRegex ''L? /q - - - - -'' = Some (''/q'', ''- -'')"
  by (simp add: regex_eval)

lemma ex_target: "declaredTarget ''- -'' = ''-''"
  by (simp add: declaredTarget_def strings_eval)

lemma ex_ft: "factoryTarget ''/q'' = ''/usr/share/factory/q''"
  by (simp add: factoryTarget_def strings_eval path_eval)

lemma optional_line_example:
  "strings_HasPrefix ''L? /q - - - - -'' ''L?'' \<and>
   FindStringSubmatch lineRegex ''L? /q - - - - -'' = Some (''/q'', ''- -'') \<and>
   \<not> os_Stat (fs example_world) (checkedTarget ''/q'' (declaredTarget ''- -'')) \<and>
   fst (processLine ''L? /q - - - - -'' [] example_world) = None \<and>
   fst (scanLine '' L? /q - - - - -'' (0, [], example_world)) = 0 \<and>
   stdout (snd (snd (processLine ''L? /q - - - - -'' [] example_world))) =
     [FactoryDefault ''/q'' ''/usr/share/factory/q'',
      FactoryMissingOptional ''/usr/share/factory/q'']"
proof -
  have p: "strings_HasPrefix ''L? /q - - - - -'' ''L?''" by (simp add: strings_eval)
  have t: "strings_TrimSpace '' L? /q - - - - -'' = ''L? /q - - - - -''" by (simp add: strings_eval)
  have s: "\<not> os_Stat (fs example_world) (checkedTarget ''/q'' (declaredTarget ''- -''))"
    by (simp add: ex_target checkedTarget_def ex_ft example_world_def example_fs_def)
  from optional_line_returns_nil [OF p, of "[]" example_world "'' L? /q - - - - -''" 0]
    ex_match s t p
  show ?thesis by (simp add: ex_target ex_ft example_world_def)
qed

lemma single_world_simps:
  "filepath_Glob (fs (single_world lines)) ''/usr/lib/tmpfiles.d/*.conf'' =
     Some [''/usr/lib/tmpfiles.d/a.conf'']"
  "os_Open (fs (single_world lines)) ''/usr/lib/tmpfiles.d/a.conf'' = Some lines"
  "os_Stat (fs (single_world lines)) p \<longleftrightarrow>
     p = ''/usr/share/factory/etc'' \<or> p = ''/usr/share/factory/etc/bar''"
  "stdout (single_world lines) = []"
  "stderr (single_world lines) = []"
  "filepath_Glob (fs (single_world lines)) ''/usr/share/tmpfiles.d/*.ignore'' = Some []"
  "os_ReadDir (fs (single_world lines)) ''/usr/share/factory/etc'' = Some [DirEntry ''bar'' False]"
  by (simp_all add: single_world_def single_fs_def)

lemma optional_factory_line:
  "processLine ''L? /etc/foo - - - - -'' [] (single_world lines) =
     (None, [(''/usr/share/factory/etc'', [(''foo'', True)])],
      say (FactoryMissingOptional ''/usr/share/factory/etc/foo'')
        (say (FactoryDefault ''/etc/foo'' ''/usr/share/factory/etc/foo'') (single_world lines)))"
proof -
  have m: "FindStringSubmatch lineRegex ''L? /etc/foo - - - - -'' = Some (''/etc/foo'', ''- -'')"
    by (simp add: regex_eval)
  have f: "factoryTarget ''/etc/foo'' = ''/usr/share/factory/etc/foo''"
    by (simp add: factoryTarget_def strings_eval path_eval)
  have d: "filepath_Dir ''/usr/share/factory/etc/foo'' = ''/usr/share/factory/etc''"
    "filepath_Base ''/usr/share/factory/etc/foo'' = ''foo''"
    by (simp_all add: path_eval)
  have s: "\<not> os_Stat (fs (single_world lines)) ''/usr/share/factory/etc/foo''"
    by (simp add: single_world_simps)
  have p: "strings_HasPrefix ''L? /etc/foo - - - - -'' ''L?''"
    "\<not> strings_HasPrefix ''L? /etc/foo - - - - -'' ''L+''"
    by (simp_all add: strings_HasPrefix_def)
  show ?thesis
    by (simp add: processLine_match[OF m] ex_target f s p Let_def finishLine_def trackTarget_def d
        isBaseDir_def linkedDirs_add_def)
qed

lemma optional_explicit_line:
  "processLine ''L? /etc/foo - - - - /srv/none'' [] (single_world lines) =
     (None, [],
      say (TargetMissingOptional ''/srv/none'')
        (say (ExplicitTarget ''/etc/foo'' ''/srv/none'') (single_world lines)))"
proof -
  have m: "FindStringSubmatch lineRegex ''L? /etc/foo - - - - /srv/none'' =
      Some (''/etc/foo'', ''- /srv/none'')"
    by (simp add: regex_eval)
  have t: "declaredTarget ''- /srv/none'' = ''/srv/none''"
    by (simp add: declaredTarget_def strings_eval)
  have r: "resolveTargetPath ''/etc/foo'' ''/srv/none'' = ''/srv/none''"
    by (simp add: resolveTargetPath_def filepath_IsAbs_def strings_HasPrefix_def)
  have s: "\<not> os_Stat (fs (single_world lines)) ''/srv/none''"
    by (simp add: single_world_simps)
  have p: "strings_HasPrefix ''L? /etc/foo - - - - /srv/none'' ''L?''"
    "\<not> strings_HasPrefix ''L? /etc/foo - - - - /srv/none'' ''L+''"
    by (simp_all add: strings_HasPrefix_def)
  show ?thesis
    by (simp add: processLine_match[OF m] t r s p Let_def finishLine_def)
qed

text \<open>
  Claim C8. A declaration with the optional directive whose target is missing is to yield a
  warning and nothing else: \<open>processLine\<close> returns \<open>nil\<close>, and the line cannot make the
  exit code nonzero. For a missing explicit target this is what happens. For a missing
  factory default \<open>processLine\<close> returns \<open>nil\<close> as well, but it has recorded the directory
  of the missing file in \<open>linkedDirs\<close>, which the branch for an explicit target does only
  when the target exists, and the completeness check then fails on that directory. With the
  single line \<open>L? /etc/foo - - - - -\<close>, no file \<open>/usr/share/factory/etc/foo\<close> and a file
  \<open>bar\<close> in \<open>/usr/share/factory/etc\<close> the exit code is 1; it is 0 without the line, and
  0 with the line \<open>L? /etc/foo - - - - /srv/none\<close> in its place.
\<close>

theorem optional_factory_default_fails:
  "strings_HasPrefix ''L? /etc/foo - - - - -'' ''L?'' \<and>
   FindStringSubmatch lineRegex ''L? /etc/foo - - - - -'' = Some (''/etc/foo'', ''- -'') \<and>
   declaredTarget ''- -'' = ''-'' \<and>
   \<not> os_Stat (fs (single_world [''L? /etc/foo - - - - -''])) (factoryTarget ''/etc/foo'') \<and>
   fst (processLine ''L? /etc/foo - - - - -'' [] (single_world [''L? /etc/foo - - - - -''])) = None \<and>
   fst (snd (processLine ''L? /etc/foo - - - - -'' [] (single_world [''L? /etc/foo - - - - -'']))) =
     [(''/usr/share/factory/etc'', [(''foo'', True)])] \<and>
   fst (main (single_world [''L? /etc/foo - - - - -''])) = 1 \<and>
   fst (main (single_world [])) = 0 \<and>
   fst (snd (processLine ''L? /etc/foo - - - - /srv/none'' []
               (single_world [''L? /etc/foo - - - - /srv/none'']))) = [] \<and>
   fst (main (single_world [''L? /etc/foo - - - - /srv/none''])) = 0"
proof -
  have t: "strings_TrimSpace ''L? /etc/foo - - - - -'' = ''L? /etc/foo - - - - -''"
    "strings_TrimSpace ''L? /etc/foo - - - - /srv/none'' = ''L? /etc/foo - - - - /srv/none''"
    by (simp_all add: strings_eval)
  have p: "strings_HasPrefix ''L? /etc/foo - - - - -'' ''L''"
    "\<not> strings_HasPrefix ''L? /etc/foo - - - - -'' ''#''"
    "strings_HasPrefix ''L? /etc/foo - - - - /srv/none'' ''L''"
    "\<not> strings_HasPrefix ''L? /etc/foo - - - - /srv/none'' ''#''"
    "strings_HasPrefix ''L? /etc/foo - - - - -'' ''L?''"
    by (simp_all add: strings_HasPrefix_def)
  have c: "strings_Contains ''/usr/share/factory/etc'' ''/.git'' = False"
    by simp
  have 1: "fst (main (single_world [''L? /etc/foo - - - - -''])) = 1"
    by (simp add: main_def scanFile_def scanLine_def t p optional_factory_line
        single_world_simps loadIgnoreFiles_def checkDirectoryCompleteness_def
        checkCompleteness_def skippedDir_def c mapBool_def path_eval)
  have 2: "fst (main (single_world [])) = 0"
    by (simp add: main_def scanFile_def single_world_simps loadIgnoreFiles_def
        checkDirectoryCompleteness_def checkCompleteness_def)
  have 3: "fst (main (single_world [''L? /etc/foo - - - - /srv/none''])) = 0"
    by (simp add: main_def scanFile_def scanLine_def t p optional_explicit_line
        single_world_simps loadIgnoreFiles_def checkDirectoryCompleteness_def
        checkCompleteness_def)
  have m: "FindStringSubmatch lineRegex ''L? /etc/foo - - - - -'' = Some (''/etc/foo'', ''- -'')"
    by (simp add: regex_eval)
  have f: "factoryTarget ''/etc/foo'' = ''/usr/share/factory/etc/foo''"
    by (simp add: factoryTarget_def strings_eval path_eval)
  show ?thesis
    using 1 2 3 m p(5)
    by (simp add: optional_factory_line optional_explicit_line ex_target f single_world_simps)
qed

section \<open>Resolving targets\<close>

text \<open>
  Claim C6. For a declaration with an explicit target (neither empty nor \<open>-\<close>), the
  path checked for existence is the target itself when it is absolute, and otherwise the
  cleaned join of the directory of the symlink path with the target. The result of
  \<open>processLine\<close> and the verdict it prints are decided by \<open>os.Stat\<close> at that path.
\<close>

theorem explicit_target_resolved:
  assumes m: "FindStringSubmatch lineRegex line = Some (path, tf)"
    and t: "declaredTarget tf = target" "target \<noteq> []" "target \<noteq> ''-''"
    and r: "r = (if strings_HasPrefix target ''/'' then target
                 else filepath_Clean (filepath_Join (filepath_Dir path) target))"
  shows "resolveTargetPath path target = r \<and>
     fst (processLine line ld w) =
       (if os_Stat (fs w) r \<or> strings_HasPrefix line ''L?'' then None
        else Some (MissingTarget r)) \<and>
     (if os_Stat (fs w) r then TargetExists r
      else if strings_HasPrefix line ''L?'' then TargetMissingOptional r
      else TargetMissing r)
       \<in> set (drop (length (stdout w)) (stdout (snd (snd (processLine line ld w)))))"
proof -
  have res: "resolveTargetPath path target = r"
    by (simp add: r resolveTargetPath_def filepath_IsAbs_def)
  show ?thesis
    using t res by (auto simp add: processLine_match[OF m] Let_def finishLine_def)
qed

lemma ex_match_rel:
  "FindStringSubmatch lineRegex ''L+ /a/b - - - - ../opt/x/t'' = Some (''/a/b'', ''- ../opt/x/t'')"
  by (simp add: regex_eval)

lemma ex_target_rel: "declaredTarget ''- ../opt/x/t'' = ''../opt/x/t''"
  by (simp add: declaredTarget_def strings_eval)

lemma ex_resolved_rel:
  "filepath_Clean (filepath_Join (filepath_Dir ''/a/b'') ''../opt/x/t'') = ''/opt/x/t''"
  by (simp add: path_eval)

theorem explicit_target_resolved_witness:
  "FindStringSubmatch lineRegex ''L+ /a/b - - - - ../opt/x/t'' = Some (''/a/b'', ''- ../opt/x/t'') \<and>
   declaredTarget ''- ../opt/x/t'' = ''../opt/x/t'' \<and>
   \<not> strings_HasPrefix ''../opt/x/t'' ''/'' \<and>
   resolveTargetPath ''/a/b'' ''../opt/x/t'' = ''/opt/x/t'' \<and>
   fst (processLine ''L+ /a/b - - - - ../opt/x/t'' [] example_world) = None \<and>
   TargetExists ''/opt/x/t''
     \<in> set (stdout (snd (snd (processLine ''L+ /a/b - - - - ../opt/x/t'' [] example_world))))"
proof -
  have n: "\<not> strings_HasPrefix ''../opt/x/t'' ''/''" by (simp add: strings_eval)
  have r: "''/opt/x/t'' = (if strings_HasPrefix ''../opt/x/t'' ''/'' then ''../opt/x/t''
                 else filepath_Clean (filepath_Join (filepath_Dir ''/a/b'') ''../opt/x/t''))"
    by (simp add: n ex_resolved_rel)
  have s: "os_Stat (fs example_world) ''/opt/x/t''"
    by (simp add: example_world_def example_fs_def)
  have e: "stdout example_world = []" by (simp add: example_world_def)
  from explicit_target_resolved [OF ex_match_rel ex_target_rel _ _ r, of "[]" example_world] s e n
    ex_match_rel ex_target_rel
  show ?thesis by simp
qed

text \<open>
  Claim C3. The factory default is to be decided by the prefix of the path alone:
  \<open>/etc/\<close>, \<open>/var/\<close>, and for every other path \<open>/usr/share/factory\<close> put before
  the path, as the comment on \<open>factoryTarget\<close> in the earlier revision says as well. The
  function also compares the last element of the path with \<open>etc\<close> and \<open>var\<close>, and
  where that comparison decides, the result is not the one described: the paths \<open>/srv/etc\<close>
  and \<open>/etc\<close> have neither prefix, and their factory defaults are not
  \<open>/usr/share/factory/srv/etc\<close> and \<open>/usr/share/factory/etc\<close>.
\<close>

theorem factoryTarget_last_element:
  "\<not> strings_HasPrefix ''/srv/etc'' ''/etc/'' \<and> \<not> strings_HasPrefix ''/srv/etc'' ''/var/'' \<and>
   factoryTarget ''/srv/etc'' = ''/usr/share/factory/etc//srv/etc'' \<and>
   factoryTarget ''/srv/etc'' \<noteq> ''/usr/share/factory'' @ ''/srv/etc'' \<and>
   \<not> strings_HasPrefix ''/etc'' ''/etc/'' \<and> \<not> strings_HasPrefix ''/etc'' ''/var/'' \<and>
   factoryTarget ''/etc'' = ''/usr/share/factory/etc//etc'' \<and>
   factoryTarget ''/etc'' \<noteq> ''/usr/share/factory'' @ ''/etc''"
  by (simp add: factoryTarget_def strings_eval path_eval)

lemma TrimPrefix_drop:
  "strings_TrimPrefix s p = (if strings_HasPrefix s p then drop (length p) s else s)"
  by (simp add: strings_TrimPrefix_def)

text \<open>
  What \<open>factoryTarget\<close> computes, case by case, and its use: a declaration whose
  target is empty or \<open>-\<close> is decided by \<open>os.Stat\<close> at the factory default of its path,
  in every revision. For a path with prefix \<open>/etc/\<close>, and for a path with prefix
  \<open>/var/\<close> whose last element is not \<open>etc\<close>, and for a path with neither prefix whose
  last element is neither \<open>etc\<close> nor \<open>var\<close>, the result is the one described
  above.
\<close>

lemma factoryTarget_cases:
  "(strings_HasPrefix path ''/etc/'' \<longrightarrow>
      factoryTarget path = ''/usr/share/factory/etc/'' @ drop 5 path) \<and>
   (\<not> strings_HasPrefix path ''/etc/'' \<and> filepath_Base path = ''etc'' \<longrightarrow>
      factoryTarget path = ''/usr/share/factory/etc/'' @ path) \<and>
   (strings_HasPrefix path ''/var/'' \<and> filepath_Base path \<noteq> ''etc'' \<longrightarrow>
      factoryTarget path = ''/usr/share/factory/var/'' @ drop 5 path) \<and>
   (\<not> strings_HasPrefix path ''/etc/'' \<and> \<not> strings_HasPrefix path ''/var/'' \<and>
    filepath_Base path = ''var'' \<longrightarrow>
      factoryTarget path = ''/usr/share/factory/var/'' @ path) \<and>
   (\<not> strings_HasPrefix path ''/etc/'' \<and> \<not> strings_HasPrefix path ''/var/'' \<and>
    filepath_Base path \<noteq> ''etc'' \<and> filepath_Base path \<noteq> ''var'' \<longrightarrow>
      factoryTarget path = ''/usr/share/factory'' @ path) \<and>
   (\<forall>tf. FindStringSubmatch lineRegex line = Some (path, tf) \<and>
      (declaredTarget tf = [] \<or> declaredTarget tf = ''-'') \<longrightarrow>
      fst (processLine line ld w) =
        (if os_Stat (fs w) (factoryTarget path) \<or> strings_HasPrefix line ''L?'' then None
         else Some (MissingFactoryTarget (factoryTarget path)))) \<and>
   (\<forall>rest. FindStringSubmatch lineRegex_v1 line = Some (path, rest) \<and>
      (cleanQuotes rest = [] \<or> cleanQuotes rest = ''-'') \<longrightarrow>
      fst (processLine_v1 line ld w) =
        (if os_Stat (fs w) (factoryTarget path) then None
         else Some (MissingFactoryTarget (factoryTarget path))))"
proof -
  have e: "strings_HasPrefix path ''/etc/'' \<Longrightarrow> \<not> strings_HasPrefix path ''/var/''"
    by (auto simp: strings_HasPrefix_def prefix_def)
  have 1: "\<forall>tf. FindStringSubmatch lineRegex line = Some (path, tf) \<and>
      (declaredTarget tf = [] \<or> declaredTarget tf = ''-'') \<longrightarrow>
      fst (processLine line ld w) =
        (if os_Stat (fs w) (factoryTarget path) \<or> strings_HasPrefix line ''L?'' then None
         else Some (MissingFactoryTarget (factoryTarget path)))"
    by (auto simp add: processLine_match Let_def finishLine_def)
  have 2: "\<forall>rest. FindStringSubmatch lineRegex_v1 line = Some (path, rest) \<and>
      (cleanQuotes rest = [] \<or> cleanQuotes rest = ''-'') \<longrightarrow>
      fst (processLine_v1 line ld w) =
        (if os_Stat (fs w) (factoryTarget path) then None
         else Some (MissingFactoryTarget (factoryTarget path)))"
    by (auto simp add: processLine_v1_def Let_def)
  have 0: "(strings_HasPrefix path ''/etc/'' \<longrightarrow>
      factoryTarget path = ''/usr/share/factory/etc/'' @ drop 5 path) \<and>
   (\<not> strings_HasPrefix path ''/etc/'' \<and> filepath_Base path = ''etc'' \<longrightarrow>
      factoryTarget path = ''/usr/share/factory/etc/'' @ path) \<and>
   (strings_HasPrefix path ''/var/'' \<and> filepath_Base path \<noteq> ''etc'' \<longrightarrow>
      factoryTarget path = ''/usr/share/factory/var/'' @ drop 5 path) \<and>
   (\<not> strings_HasPrefix path ''/etc/'' \<and> \<not> strings_HasPrefix path ''/var/'' \<and>
    filepath_Base path = ''var'' \<longrightarrow>
      factoryTarget path = ''/usr/share/factory/var/'' @ path) \<and>
   (\<not> strings_HasPrefix path ''/etc/'' \<and> \<not> strings_HasPrefix path ''/var/'' \<and>
    filepath_Base path \<noteq> ''etc'' \<and> filepath_Base path \<noteq> ''var'' \<longrightarrow>
      factoryTarget path = ''/usr/share/factory'' @ path)"
    using e by (simp add: factoryTarget_def Let_def TrimPrefix_drop eval_nat_numeral)
  from 0 1 2 show ?thesis by blast
qed

lemma factoryTarget_cases_at_examples:
  "strings_HasPrefix ''/etc/motd'' ''/etc/'' \<and>
   factoryTarget ''/etc/motd'' = ''/usr/share/factory/etc/motd'' \<and>
   filepath_Base ''/srv/etc'' = ''etc'' \<and>
   factoryTarget ''/srv/etc'' = ''/usr/share/factory/etc//srv/etc'' \<and>
   strings_HasPrefix ''/var/log'' ''/var/'' \<and>
   factoryTarget ''/var/log'' = ''/usr/share/factory/var/log'' \<and>
   filepath_Base ''/srv/var'' = ''var'' \<and>
   factoryTarget ''/srv/var'' = ''/usr/share/factory/var//srv/var'' \<and>
   factoryTarget ''/opt/x'' = ''/usr/share/factory/opt/x'' \<and>
   FindStringSubmatch lineRegex ''L /etc/motd - - - - -'' = Some (''/etc/motd'', ''- -'') \<and>
   fst (processLine ''L /etc/motd - - - - -'' [] example_world) = None \<and>
   FindStringSubmatch lineRegex_v1 ''L /etc/motd - - - -'' = Some (''/etc/motd'', ''-'') \<and>
   fst (processLine_v1 ''L /etc/motd - - - -'' [] example_world) = None"
proof -
  have h: "strings_HasPrefix ''/etc/motd'' ''/etc/''" "filepath_Base ''/srv/etc'' = ''etc''"
    "\<not> strings_HasPrefix ''/srv/etc'' ''/etc/''"
    "strings_HasPrefix ''/var/log'' ''/var/''" "filepath_Base ''/var/log'' \<noteq> ''etc''"
    "filepath_Base ''/srv/var'' = ''var''" "\<not> strings_HasPrefix ''/srv/var'' ''/etc/''"
    "\<not> strings_HasPrefix ''/srv/var'' ''/var/''"
    "\<not> strings_HasPrefix ''/opt/x'' ''/etc/''" "\<not> strings_HasPrefix ''/opt/x'' ''/var/''"
    "filepath_Base ''/opt/x'' \<noteq> ''etc''" "filepath_Base ''/opt/x'' \<noteq> ''var''"
    by (simp_all add: strings_eval path_eval)
  have m: "FindStringSubmatch lineRegex ''L /etc/motd - - - - -'' = Some (''/etc/motd'', ''- -'')"
    "FindStringSubmatch lineRegex_v1 ''L /etc/motd - - - -'' = Some (''/etc/motd'', ''-'')"
    by (simp_all add: regex_eval)
  have t: "declaredTarget ''- -'' = ''-''" "cleanQuotes ''-'' = ''-''"
    by (simp_all add: declaredTarget_def strings_eval)
  have s: "os_Stat (fs example_world) ''/usr/share/factory/etc/motd''"
    by (simp add: example_world_def example_fs_def)
  from factoryTarget_cases [of "''/etc/motd''" "''L /etc/motd - - - - -''" "[]" example_world]
    factoryTarget_cases [of "''/etc/motd''" "''L /etc/motd - - - -''" "[]" example_world]
    factoryTarget_cases [of "''/srv/etc''" "[]" "[]" example_world]
    factoryTarget_cases [of "''/var/log''" "[]" "[]" example_world]
    factoryTarget_cases [of "''/srv/var''" "[]" "[]" example_world]
    factoryTarget_cases [of "''/opt/x''" "[]" "[]" example_world]
    h m t s
  show ?thesis by simp
qed

section \<open>Base system directories\<close>

lemma printsOnly_refl [simp]: "printsOnly P w w"
  by (simp add: printsOnly_def)

lemma printsOnly_trans: "printsOnly P w w1 \<Longrightarrow> printsOnly P w1 w2 \<Longrightarrow> printsOnly P w w2"
  by (auto simp: printsOnly_def)

lemma printsOnly_say: "P m \<Longrightarrow> printsOnly P w w1 \<Longrightarrow> printsOnly P w (say m w1)"
  by (auto simp: printsOnly_def)

lemma printsOnly_say0: "P m \<Longrightarrow> printsOnly P w (say m w)"
  by (auto simp: printsOnly_def)

lemma printsOnly_complain: "printsOnly P w w1 \<Longrightarrow> printsOnly P w (complain m w1)"
  by (auto simp: printsOnly_def)

lemma printsOnly_mono: "printsOnly P w w' \<Longrightarrow> (\<And>m. P m \<Longrightarrow> Q m) \<Longrightarrow> printsOnly Q w w'"
  by (auto simp: printsOnly_def list_all_iff)

lemma printsOnly_fs: "printsOnly P w w' \<Longrightarrow> fs w' = fs w"
  by (simp add: printsOnly_def)

lemma finishLine_prints:
  "P RecreateNote \<Longrightarrow> printsOnly P w w1 \<Longrightarrow> printsOnly P w (snd (snd (finishLine r ld w1)))"
  by (simp add: finishLine_def printsOnly_say)

text \<open>What \<open>processLine\<close> prints names no directory of \<open>linkedDirs\<close>.\<close>

lemma processLine_prints:
  "printsOnly (\<lambda>m. msgDir m = None) w (snd (snd (processLine line ld w)))"
proof (cases "FindStringSubmatch lineRegex line")
  case None
  then show ?thesis by (simp add: processLine_nomatch)
next
  case (Some pt)
  obtain path tf where "pt = (path, tf)" by (cases pt)
  with Some have m: "FindStringSubmatch lineRegex line = Some (path, tf)" by simp
  show ?thesis
    by (simp add: processLine_match[OF m] Let_def finishLine_prints printsOnly_say printsOnly_say0)
qed

lemma processLine_v1_prints:
  "printsOnly (\<lambda>m. msgDir m = None) w (snd (snd (processLine_v1 line ld w)))"
  by (simp add: processLine_v1_def Let_def printsOnly_say printsOnly_say0 split: option.split)

lemma set_update_cases:
  "e \<in> set (AList.update k v al) \<Longrightarrow> e = (k, v) \<or> e \<in> set al"
  by (induction al) (auto split: if_splits)

lemma linkedDirs_add_key:
  "e \<in> set (linkedDirs_add dir name ld) \<Longrightarrow> fst e = dir \<or> e \<in> set ld"
  by (auto simp add: linkedDirs_add_def split: option.splits dest: set_update_cases)

lemma trackTarget_no_base:
  assumes "\<forall>e\<in>set ld. \<not> isBase (fst e)"
  shows "\<forall>e\<in>set (trackTarget isBase t ld). \<not> isBase (fst e)"
  using assms by (auto simp add: trackTarget_def Let_def dest: linkedDirs_add_key)

lemma processLine_no_base:
  assumes "\<forall>e\<in>set ld. \<not> isBaseDir (fst e)"
  shows "\<forall>e\<in>set (fst (snd (processLine line ld w))). \<not> isBaseDir (fst e)"
proof (cases "FindStringSubmatch lineRegex line")
  case None
  with assms show ?thesis by (simp add: processLine_nomatch)
next
  case (Some pt)
  obtain path tf where "pt = (path, tf)" by (cases pt)
  with Some have m: "FindStringSubmatch lineRegex line = Some (path, tf)" by simp
  from assms trackTarget_no_base[OF assms] show ?thesis
    by (simp add: processLine_match[OF m] Let_def finishLine_def)
qed

lemma processLine_v1_no_base:
  assumes "\<forall>e\<in>set ld. \<not> isBaseDir_v1 (fst e)"
  shows "\<forall>e\<in>set (fst (snd (processLine_v1 line ld w))). \<not> isBaseDir_v1 (fst e)"
  using assms trackTarget_no_base[OF assms]
  by (simp add: processLine_v1_def Let_def split: option.split)

text \<open>The loops of \<open>main\<close> over lines and files.\<close>

lemma scanInv_refl [simp]: "scanInv isBase st st"
  by (simp add: scanInv_def)

lemma scanInv_trans: "scanInv isBase a b \<Longrightarrow> scanInv isBase b c \<Longrightarrow> scanInv isBase a c"
  by (auto simp: scanInv_def intro: printsOnly_trans)

lemma scanLine_inv: "scanInv isBaseDir st (scanLine raw st)"
proof -
  obtain ec ld w where st: "st = (ec, ld, w)" by (cases st)
  obtain e l v where r: "processLine (strings_TrimSpace raw) ld w = (e, l, v)"
    by (cases "processLine (strings_TrimSpace raw) ld w")
  from processLine_no_base[of ld "strings_TrimSpace raw" w] r
  have 1: "(\<forall>e\<in>set ld. \<not> isBaseDir (fst e)) \<longrightarrow> (\<forall>e\<in>set l. \<not> isBaseDir (fst e))" by simp
  from processLine_prints[of w "strings_TrimSpace raw" ld] r
  have 2: "printsOnly (\<lambda>m. msgDir m = None) w v" by simp
  show ?thesis
    using 1 2 r by (cases e) (simp_all add: st scanLine_def Let_def scanInv_def)
qed

lemma scanLine_v1_inv: "scanInv isBaseDir_v1 st (scanLine_v1 line st)"
proof -
  obtain ec ld w where st: "st = (ec, ld, w)" by (cases st)
  obtain e l v where r: "processLine_v1 line ld w = (e, l, v)"
    by (cases "processLine_v1 line ld w")
  from processLine_v1_no_base[of ld line w] r
  have 1: "(\<forall>e\<in>set ld. \<not> isBaseDir_v1 (fst e)) \<longrightarrow> (\<forall>e\<in>set l. \<not> isBaseDir_v1 (fst e))" by simp
  from processLine_v1_prints[of w line ld] r
  have 2: "printsOnly (\<lambda>m. msgDir m = None) w v" by simp
  show ?thesis
    using 1 2 r by (cases e) (simp_all add: st scanLine_v1_def Let_def scanInv_def)
qed

lemma fold_inv:
  assumes "\<And>x st. scanInv isBase st (body x st)"
  shows "scanInv isBase st (fold body xs st)"
proof (induction xs arbitrary: st)
  case Nil
  show ?case by simp
next
  case (Cons x xs)
  from assms[of st x] Cons[of "body x st"] show ?case
    by (auto intro: scanInv_trans)
qed

lemma scanFile_inv:
  assumes "\<And>x st. scanInv isBase st (body x st)"
  shows "scanInv isBase st (scanFile body file st)"
proof -
  obtain ec ld w where st: "st = (ec, ld, w)" by (cases st)
  show ?thesis
  proof (cases "os_Open (fs w) file")
    case None
    then show ?thesis by (simp add: st scanFile_def scanInv_def printsOnly_complain)
  next
    case (Some lines)
    with fold_inv[of isBase body, OF assms, of st lines] show ?thesis
      by (simp add: st scanFile_def)
  qed
qed

lemma scanFiles_inv:
  assumes "\<And>x st. scanInv isBase st (body x st)"
  shows "scanInv isBase st (fold (scanFile body) files st)"
  by (rule fold_inv) (rule scanFile_inv, rule assms)

lemma ignoreLines_prints:
  "printsOnly (\<lambda>m. msgDir m = None) w (snd (ignoreLines f lines (ign, w)))"
proof (induction lines arbitrary: ign w)
  case Nil
  show ?case by simp
next
  case (Cons raw rest)
  let ?line = "strings_TrimSpace raw"
  show ?case
  proof (cases "?line = [] \<or> strings_HasPrefix ?line ''#''")
    case True
    with Cons.IH[where ign=ign and w=w] show ?thesis by (simp add: Let_def)
  next
    case False
    have "printsOnly (\<lambda>m. msgDir m = None) w (say (IgnoreRule ?line f) w)"
      by (simp add: printsOnly_say0)
    from printsOnly_trans[OF this
        Cons.IH[where ign="AList.update ?line True ign" and w="say (IgnoreRule ?line f) w"]]
      False
    show ?thesis by (simp add: Let_def)
  qed
qed

lemma ignoreFiles_prints:
  "printsOnly (\<lambda>m. msgDir m = None) w (snd (ignoreFiles files (ign, w)))"
proof (induction files arbitrary: ign w)
  case Nil
  show ?case by simp
next
  case (Cons f files)
  show ?case
  proof (cases "os_Open (fs w) f")
    case None
    with Cons.IH[where ign=ign and w=w] show ?thesis by simp
  next
    case (Some lines)
    obtain ign1 w1 where r: "ignoreLines f lines (ign, w) = (ign1, w1)"
      by (cases "ignoreLines f lines (ign, w)")
    from ignoreLines_prints[of w f lines ign] r
    have "printsOnly (\<lambda>m. msgDir m = None) w w1" by simp
    from printsOnly_trans[OF this Cons.IH[where ign=ign1 and w=w1]] Some r
    show ?thesis by simp
  qed
qed

lemma loadIgnoreFiles_prints:
  "printsOnly (\<lambda>m. msgDir m = None) w (snd (loadIgnoreFiles w))"
  by (simp add: loadIgnoreFiles_def ignoreFiles_prints split: option.split)

text \<open>The directories the completeness check and the summary name are keys of \<open>linkedDirs\<close>.\<close>

lemma checkDirs_prints:
  assumes "\<forall>e\<in>set ld. P (fst e)"
  shows "printsOnly (\<lambda>m. \<forall>d. msgDir m = Some d \<longrightarrow> P d) w (snd (checkDirs skip ld ign (h, w)))"
  using assms
proof (induction ld arbitrary: h w)
  case Nil
  show ?case by simp
next
  case (Cons e ld)
  obtain dir lf where e: "e = (dir, lf)" by (cases e)
  from Cons.prems e have P: "P dir" and rest: "\<forall>e\<in>set ld. P (fst e)" by simp_all
  note IH = Cons.IH[OF rest]
  show ?case
  proof (cases "skip dir")
    case True
    with IH[where h=h and w=w] show ?thesis by (simp add: e)
  next
    case False
    show ?thesis
    proof (cases "os_ReadDir (fs w) dir")
      case None
      with False IH[where h=h and w=w] show ?thesis by (simp add: e)
    next
      case (Some entries)
      let ?missing = "missingFiles dir lf ign entries"
      let ?w2 = "say (MissingFiles ?missing) (say (IncompleteDir dir) w)"
      have step: "printsOnly (\<lambda>m. \<forall>d. msgDir m = Some d \<longrightarrow> P d) w ?w2"
        using P by (simp add: printsOnly_say printsOnly_say0)
      show ?thesis
      proof (cases "?missing = []")
        case True
        with False Some IH[where h=h and w=w] show ?thesis by (simp add: e)
      next
        case nonempty: False
        from printsOnly_trans[OF step IH[where h=True and w="?w2"]] False Some nonempty
        show ?thesis by (simp add: e)
      qed
    qed
  qed
qed

lemma summaryOfDir_prints:
  assumes "P dir"
  shows "printsOnly (\<lambda>m. \<forall>d. msgDir m = Some d \<longrightarrow> P d) w (summaryOfDir dir found w)"
proof -
  obtain missing ignored linked where f: "found = (missing, ignored, linked)" by (cases found)
  show ?thesis
    using assms by (simp add: f summaryOfDir_def Let_def printsOnly_say printsOnly_say0)
qed

lemma summaryDirs_prints:
  assumes "\<forall>e\<in>set ld. P (fst e)"
  shows "printsOnly (\<lambda>m. \<forall>d. msgDir m = Some d \<longrightarrow> P d) w (summaryDirs skip ld ign w)"
  using assms
proof (induction ld arbitrary: w)
  case Nil
  show ?case by simp
next
  case (Cons e ld)
  obtain dir lf where e: "e = (dir, lf)" by (cases e)
  from Cons.prems e have P: "P dir" and rest: "\<forall>e\<in>set ld. P (fst e)" by simp_all
  note IH = Cons.IH[OF rest]
  show ?case
  proof (cases "skip dir")
    case True
    with IH[where w=w] show ?thesis by (simp add: e)
  next
    case False
    show ?thesis
    proof (cases "os_ReadDir (fs w) dir")
      case None
      have u: "printsOnly (\<lambda>m. \<forall>d. msgDir m = Some d \<longrightarrow> P d) w (say (SummaryUnreadable dir) w)"
        using P by (simp add: printsOnly_say0)
      from printsOnly_trans[OF u IH[where w="say (SummaryUnreadable dir) w"]] False None
      show ?thesis by (simp add: e)
    next
      case (Some entries)
      let ?w1 = "summaryOfDir dir (summaryLists dir lf ign entries) w"
      from printsOnly_trans[OF summaryOfDir_prints[of P dir w, OF P] IH[where w="?w1"]] False Some
      show ?thesis by (simp add: e)
    qed
  qed
qed

lemma printsOnly_weaken:
  "printsOnly (\<lambda>m. msgDir m = None) w w' \<Longrightarrow>
   printsOnly (\<lambda>m. \<forall>d. msgDir m = Some d \<longrightarrow> P d) w w'"
  by (erule printsOnly_mono) simp

lemma run_prints:
  assumes body: "\<And>x st. scanInv isBase st (body x st)"
    and scan: "fold (scanFile body) files (0, [], w) = (ec, ld, w1)"
    and ign: "loadIgnoreFiles w1 = (ign, w2)"
    and chk: "checkCompleteness skip ld ign w2 = (err, w3)"
  shows "printsOnly (\<lambda>m. \<forall>d. msgDir m = Some d \<longrightarrow> \<not> isBase d) w
           (summaryDirs skip ld ign (say SummaryHeader w3))"
proof -
  let ?P = "\<lambda>m. \<forall>d. msgDir m = Some d \<longrightarrow> \<not> isBase d"
  from scanFiles_inv[of isBase body, OF body, of "(0, [], w)" files] scan
  have nb: "\<forall>e\<in>set ld. \<not> isBase (fst e)" and p1: "printsOnly (\<lambda>m. msgDir m = None) w w1"
    by (simp_all add: scanInv_def)
  from loadIgnoreFiles_prints[of w1] ign have p2: "printsOnly (\<lambda>m. msgDir m = None) w1 w2"
    by simp
  obtain h where c: "checkDirs skip ld ign (False, w2) = (h, w3)"
    using chk by (cases "checkDirs skip ld ign (False, w2)")
      (auto simp: checkCompleteness_def split: if_splits)
  from checkDirs_prints[of ld "\<lambda>d. \<not> isBase d", OF nb, of w2 skip ign False] c
  have p3: "printsOnly ?P w2 w3" by simp
  have p4: "printsOnly ?P w3 (say SummaryHeader w3)" by (simp add: printsOnly_say0)
  have p5: "printsOnly ?P (say SummaryHeader w3) (summaryDirs skip ld ign (say SummaryHeader w3))"
    by (rule summaryDirs_prints[of ld "\<lambda>d. \<not> isBase d", OF nb])
  note q1 = printsOnly_weaken[OF p1, of "\<lambda>d. \<not> isBase d"]
  note q2 = printsOnly_weaken[OF p2, of "\<lambda>d. \<not> isBase d"]
  show ?thesis
    by (rule printsOnly_trans[OF q1 printsOnly_trans[OF q2 printsOnly_trans[OF p3
          printsOnly_trans[OF p4 p5]]]])
qed

lemma main_prints:
  "printsOnly (\<lambda>m. \<forall>d. msgDir m = Some d \<longrightarrow> \<not> isBaseDir d) w (snd (main w))"
proof (cases "filepath_Glob (fs w) ''/usr/lib/tmpfiles.d/*.conf''")
  case None
  then show ?thesis by (simp add: main_def printsOnly_complain)
next
  case (Some files)
  obtain ec ld w1 where scan: "fold (scanFile scanLine) files (0, [], w) = (ec, ld, w1)"
    by (cases "fold (scanFile scanLine) files (0, [], w)")
  obtain ign w2 where ign: "loadIgnoreFiles w1 = (ign, w2)" by (cases "loadIgnoreFiles w1")
  obtain err w3 where chk: "checkCompleteness skippedDir ld ign w2 = (err, w3)"
    by (cases "checkCompleteness skippedDir ld ign w2")
  from run_prints[of isBaseDir scanLine, OF scanLine_inv scan ign chk] Some scan ign chk
  show ?thesis
    by (simp add: main_def checkDirectoryCompleteness_def printSummary_def)
qed

lemma main_v1_prints:
  "printsOnly (\<lambda>m. \<forall>d. msgDir m = Some d \<longrightarrow> \<not> isBaseDir_v1 d) w (snd (main_v1 w))"
proof (cases "filepath_Glob (fs w) ''/usr/lib/tmpfiles.d/*.conf''")
  case None
  then show ?thesis by (simp add: main_v1_def printsOnly_complain)
next
  case (Some files)
  obtain ec ld w1 where scan: "fold (scanFile scanLine_v1) files (0, [], w) = (ec, ld, w1)"
    by (cases "fold (scanFile scanLine_v1) files (0, [], w)")
  obtain ign w2 where ign: "loadIgnoreFiles w1 = (ign, w2)" by (cases "loadIgnoreFiles w1")
  obtain err w3 where chk: "checkCompleteness skippedDir_v1 ld ign w2 = (err, w3)"
    by (cases "checkCompleteness skippedDir_v1 ld ign w2")
  from run_prints[of isBaseDir_v1 scanLine_v1, OF scanLine_v1_inv scan ign chk] Some scan ign chk
  show ?thesis
    by (simp add: main_v1_def checkDirectoryCompleteness_v1_def printSummary_v1_def)
qed

text \<open>
  Claim C9. The base system directories are \<open>/etc\<close>, \<open>/var\<close>, \<open>/usr\<close>, \<open>/bin\<close>,
  \<open>/sbin\<close>, \<open>/lib\<close>, \<open>/lib64\<close>, and in the later revision also \<open>/proc\<close> and
  \<open>/run\<close>. \<open>processLine\<close> keeps the invariant that no key of \<open>linkedDirs\<close> is a base
  directory, so the map \<open>main\<close> builds from any configuration files has none, and
  in a run of \<open>main\<close> no message of the completeness check and no heading of the
  summary names a base directory.
\<close>

theorem base_dirs_never_tracked:
  "(isBaseDir d \<longleftrightarrow>
      d \<in> {''/etc'', ''/var'', ''/usr'', ''/bin'', ''/sbin'', ''/lib'', ''/lib64'', ''/proc'', ''/run''}) \<and>
   (isBaseDir_v1 d \<longleftrightarrow>
      d \<in> {''/etc'', ''/var'', ''/usr'', ''/bin'', ''/sbin'', ''/lib'', ''/lib64''}) \<and>
   ((\<forall>e\<in>set ld. \<not> isBaseDir (fst e)) \<longrightarrow>
      (\<forall>e\<in>set (fst (snd (processLine line ld w))). \<not> isBaseDir (fst e))) \<and>
   ((\<forall>e\<in>set ld. \<not> isBaseDir_v1 (fst e)) \<longrightarrow>
      (\<forall>e\<in>set (fst (snd (processLine_v1 line ld w))). \<not> isBaseDir_v1 (fst e))) \<and>
   (\<forall>e\<in>set (fst (snd (fold (scanFile scanLine) files (0, [], w)))). \<not> isBaseDir (fst e)) \<and>
   (\<forall>e\<in>set (fst (snd (fold (scanFile scanLine_v1) files (0, [], w)))).
      \<not> isBaseDir_v1 (fst e)) \<and>
   (\<exists>msgs. stdout (snd (main w)) = stdout w @ msgs \<and>
      (\<forall>m\<in>set msgs. \<forall>d. msgDir m = Some d \<longrightarrow> \<not> isBaseDir d)) \<and>
   (\<exists>msgs. stdout (snd (main_v1 w)) = stdout w @ msgs \<and>
      (\<forall>m\<in>set msgs. \<forall>d. msgDir m = Some d \<longrightarrow> \<not> isBaseDir_v1 d))"
proof -
  from scanFiles_inv[of isBaseDir scanLine, OF scanLine_inv, of "(0, [], w)" files]
  have 7: "\<forall>e\<in>set (fst (snd (fold (scanFile scanLine) files (0, [], w)))). \<not> isBaseDir (fst e)"
    by (simp add: scanInv_def)
  from scanFiles_inv[of isBaseDir_v1 scanLine_v1, OF scanLine_v1_inv, of "(0, [], w)" files]
  have 8: "\<forall>e\<in>set (fst (snd (fold (scanFile scanLine_v1) files (0, [], w)))).
      \<not> isBaseDir_v1 (fst e)"
    by (simp add: scanInv_def)
  have 1: "isBaseDir d \<longleftrightarrow>
      d \<in> {''/etc'', ''/var'', ''/usr'', ''/bin'', ''/sbin'', ''/lib'', ''/lib64'', ''/proc'', ''/run''}"
    by (simp add: isBaseDir_def)
  have 2: "isBaseDir_v1 d \<longleftrightarrow>
      d \<in> {''/etc'', ''/var'', ''/usr'', ''/bin'', ''/sbin'', ''/lib'', ''/lib64''}"
    by (simp add: isBaseDir_v1_def)
  have 3: "(\<forall>e\<in>set ld. \<not> isBaseDir (fst e)) \<longrightarrow>
      (\<forall>e\<in>set (fst (snd (processLine line ld w))). \<not> isBaseDir (fst e))"
    using processLine_no_base by blast
  have 4: "(\<forall>e\<in>set ld. \<not> isBaseDir_v1 (fst e)) \<longrightarrow>
      (\<forall>e\<in>set (fst (snd (processLine_v1 line ld w))). \<not> isBaseDir_v1 (fst e))"
    using processLine_v1_no_base by blast
  from main_prints[of w]
  have 5: "\<exists>msgs. stdout (snd (main w)) = stdout w @ msgs \<and>
      (\<forall>m\<in>set msgs. \<forall>d. msgDir m = Some d \<longrightarrow> \<not> isBaseDir d)"
    by (simp add: printsOnly_def list_all_iff)
  from main_v1_prints[of w]
  have 6: "\<exists>msgs. stdout (snd (main_v1 w)) = stdout w @ msgs \<and>
      (\<forall>m\<in>set msgs. \<forall>d. msgDir m = Some d \<longrightarrow> \<not> isBaseDir_v1 d)"
    by (simp add: printsOnly_def list_all_iff)
  from 1 2 3 4 5 6 7 8 show ?thesis by blast
qed

lemma ex_match_base:
  "FindStringSubmatch lineRegex ''L /a - - - - /etc/hostname'' = Some (''/a'', ''- /etc/hostname'')"
  "FindStringSubmatch lineRegex_v1 ''L /a - - - /etc/hostname'' = Some (''/a'', ''/etc/hostname'')"
  by (simp_all add: regex_eval)

lemma ex_base_line:
  "processLine ''L /a - - - - /etc/hostname'' [] example_world =
     (None, [], say (TargetExists ''/etc/hostname'')
                  (say (ExplicitTarget ''/a'' ''/etc/hostname'') example_world))"
proof -
  have t: "declaredTarget ''- /etc/hostname'' = ''/etc/hostname''"
    by (simp add: declaredTarget_def strings_eval)
  have r: "resolveTargetPath ''/a'' ''/etc/hostname'' = ''/etc/hostname''"
    by (simp add: resolveTargetPath_def filepath_IsAbs_def strings_HasPrefix_def)
  have d: "filepath_Dir ''/etc/hostname'' = ''/etc''" by (simp add: path_eval)
  have s: "os_Stat (fs example_world) ''/etc/hostname''"
    by (simp add: example_world_def example_fs_def)
  have p: "\<not> strings_HasPrefix ''L /a - - - - /etc/hostname'' ''L+''"
    by (simp add: strings_HasPrefix_def)
  show ?thesis
    by (simp add: processLine_match[OF ex_match_base(1)] t r s p Let_def finishLine_def
        trackTarget_def d isBaseDir_def)
qed

theorem base_dirs_never_tracked_witness:
  "isBaseDir (filepath_Dir ''/etc/hostname'') \<and>
   os_Stat (fs example_world) ''/etc/hostname'' \<and>
   fst (snd (processLine ''L /a - - - - /etc/hostname'' [] example_world)) = [] \<and>
   (\<exists>msgs. stdout (snd (main example_world)) = stdout example_world @ msgs \<and>
      (\<forall>m\<in>set msgs. \<forall>d. msgDir m = Some d \<longrightarrow> \<not> isBaseDir d))"
proof -
  have d: "isBaseDir (filepath_Dir ''/etc/hostname'')" by (simp add: path_eval isBaseDir_def)
  have s: "os_Stat (fs example_world) ''/etc/hostname''"
    by (simp add: example_world_def example_fs_def)
  from base_dirs_never_tracked
    [where d="''/etc''" and ld="[]" and line="''L /a - - - - /etc/hostname''" and w=example_world
       and files="[]"] d s ex_base_line
  show ?thesis by simp
qed

section \<open>Completeness of linked directories\<close>

lemma missingFiles_nonempty:
  "missingFiles dir lf ign entries \<noteq> [] \<longleftrightarrow>
     (\<exists>e\<in>set entries. \<not> entry_IsDir e \<and> \<not> mapBool ign (filepath_Join dir (entry_Name e)) \<and>
        \<not> mapBool lf (entry_Name e))"
  by (induction entries) (auto simp add: Let_def)

text \<open>
  What the outer loop of the completeness check prints and returns, for any guard.
\<close>

lemma checkDirs_report:
  "\<exists>msgs. stdout (snd (checkDirs skip ld ign (h, w))) = stdout w @ msgs \<and>
     fs (snd (checkDirs skip ld ign (h, w))) = fs w \<and>
     stderr (snd (checkDirs skip ld ign (h, w))) = stderr w \<and>
     (\<forall>d. IncompleteDir d \<in> set msgs \<longleftrightarrow>
        (\<exists>lf entries. (d, lf) \<in> set ld \<and> \<not> skip d \<and> os_ReadDir (fs w) d = Some entries \<and>
           missingFiles d lf ign entries \<noteq> [])) \<and>
     (fst (checkDirs skip ld ign (h, w)) \<longleftrightarrow> h \<or> (\<exists>d. IncompleteDir d \<in> set msgs))"
proof (induction ld arbitrary: h w)
  case Nil
  show ?case by simp
next
  case (Cons e ld)
  obtain dir lf where e: "e = (dir, lf)" by (cases e)
  show ?case
  proof (cases "skip dir")
    case True
    from Cons.IH[of h w] obtain msgs where
      "stdout (snd (checkDirs skip ld ign (h, w))) = stdout w @ msgs"
      "fs (snd (checkDirs skip ld ign (h, w))) = fs w"
      "stderr (snd (checkDirs skip ld ign (h, w))) = stderr w"
      "\<forall>d. IncompleteDir d \<in> set msgs \<longleftrightarrow>
        (\<exists>lf entries. (d, lf) \<in> set ld \<and> \<not> skip d \<and> os_ReadDir (fs w) d = Some entries \<and>
           missingFiles d lf ign entries \<noteq> [])"
      "fst (checkDirs skip ld ign (h, w)) \<longleftrightarrow> h \<or> (\<exists>d. IncompleteDir d \<in> set msgs)"
      by blast
    with True show ?thesis
      by (intro exI[of _ msgs]) (auto simp add: e)
  next
    case False
    show ?thesis
    proof (cases "os_ReadDir (fs w) dir")
      case None
      from Cons.IH[of h w] obtain msgs where
        "stdout (snd (checkDirs skip ld ign (h, w))) = stdout w @ msgs"
        "fs (snd (checkDirs skip ld ign (h, w))) = fs w"
        "stderr (snd (checkDirs skip ld ign (h, w))) = stderr w"
        "\<forall>d. IncompleteDir d \<in> set msgs \<longleftrightarrow>
          (\<exists>lf entries. (d, lf) \<in> set ld \<and> \<not> skip d \<and> os_ReadDir (fs w) d = Some entries \<and>
             missingFiles d lf ign entries \<noteq> [])"
        "fst (checkDirs skip ld ign (h, w)) \<longleftrightarrow> h \<or> (\<exists>d. IncompleteDir d \<in> set msgs)"
        by blast
      with False None show ?thesis
        by (intro exI[of _ msgs]) (auto simp add: e)
    next
      case (Some entries)
      let ?missing = "missingFiles dir lf ign entries"
      show ?thesis
      proof (cases "?missing = []")
        case True
        from Cons.IH[of h w] obtain msgs where
          "stdout (snd (checkDirs skip ld ign (h, w))) = stdout w @ msgs"
          "fs (snd (checkDirs skip ld ign (h, w))) = fs w"
          "stderr (snd (checkDirs skip ld ign (h, w))) = stderr w"
          "\<forall>d. IncompleteDir d \<in> set msgs \<longleftrightarrow>
            (\<exists>lf entries. (d, lf) \<in> set ld \<and> \<not> skip d \<and> os_ReadDir (fs w) d = Some entries \<and>
               missingFiles d lf ign entries \<noteq> [])"
          "fst (checkDirs skip ld ign (h, w)) \<longleftrightarrow> h \<or> (\<exists>d. IncompleteDir d \<in> set msgs)"
          by blast
        with False Some True show ?thesis
          by (intro exI[of _ msgs]) (auto simp add: e)
      next
        case nonempty: False
        let ?w2 = "say (MissingFiles ?missing) (say (IncompleteDir dir) w)"
        from Cons.IH[of True ?w2] obtain msgs where
          "stdout (snd (checkDirs skip ld ign (True, ?w2))) = stdout ?w2 @ msgs"
          "fs (snd (checkDirs skip ld ign (True, ?w2))) = fs ?w2"
          "stderr (snd (checkDirs skip ld ign (True, ?w2))) = stderr ?w2"
          "\<forall>d. IncompleteDir d \<in> set msgs \<longleftrightarrow>
            (\<exists>lf entries. (d, lf) \<in> set ld \<and> \<not> skip d \<and> os_ReadDir (fs ?w2) d = Some entries \<and>
               missingFiles d lf ign entries \<noteq> [])"
          "fst (checkDirs skip ld ign (True, ?w2)) \<longleftrightarrow> True \<or> (\<exists>d. IncompleteDir d \<in> set msgs)"
          by blast
        with False Some nonempty show ?thesis
          by (intro exI[of _ "IncompleteDir dir # MissingFiles ?missing # msgs"])
            (auto simp add: e)
      qed
    qed
  qed
qed

lemma checkCompleteness_report:
  assumes "distinct (map fst ld)" and "(dir, lf) \<in> set ld"
    and "os_ReadDir (fs w) dir = Some entries"
  shows "(IncompleteDir dir
            \<in> set (drop (length (stdout w)) (stdout (snd (checkCompleteness skip ld ign w)))) \<longleftrightarrow>
          \<not> skip dir \<and>
          (\<exists>e\<in>set entries. \<not> entry_IsDir e \<and>
             \<not> mapBool ign (filepath_Join dir (entry_Name e)) \<and> \<not> mapBool lf (entry_Name e))) \<and>
         fst (checkCompleteness skip ld ign w) =
           (if \<exists>d. IncompleteDir d
                  \<in> set (drop (length (stdout w)) (stdout (snd (checkCompleteness skip ld ign w))))
            then Some IncompleteLinking else None)"
proof -
  obtain h' w' where r: "checkDirs skip ld ign (False, w) = (h', w')"
    by (cases "checkDirs skip ld ign (False, w)")
  from checkDirs_report[of skip ld ign False w] r obtain msgs where
    out: "stdout w' = stdout w @ msgs"
    and rep: "\<forall>d. IncompleteDir d \<in> set msgs \<longleftrightarrow>
        (\<exists>lf entries. (d, lf) \<in> set ld \<and> \<not> skip d \<and> os_ReadDir (fs w) d = Some entries \<and>
           missingFiles d lf ign entries \<noteq> [])"
    and h: "h' \<longleftrightarrow> (\<exists>d. IncompleteDir d \<in> set msgs)"
    by auto
  have same: "lf' = lf" if "(dir, lf') \<in> set ld" for lf'
    using assms(1,2) that by (metis eq_key_imp_eq_value)
  have "IncompleteDir dir \<in> set msgs \<longleftrightarrow> \<not> skip dir \<and> missingFiles dir lf ign entries \<noteq> []"
  proof
    assume "IncompleteDir dir \<in> set msgs"
    with rep obtain lf' entries' where a: "(dir, lf') \<in> set ld" "\<not> skip dir"
      "os_ReadDir (fs w) dir = Some entries'" "missingFiles dir lf' ign entries' \<noteq> []"
      by blast
    from a(1) have "lf' = lf" by (rule same)
    moreover from a(3) assms(3) have "entries' = entries" by simp
    ultimately show "\<not> skip dir \<and> missingFiles dir lf ign entries \<noteq> []"
      using a by simp
  next
    assume "\<not> skip dir \<and> missingFiles dir lf ign entries \<noteq> []"
    with assms(2,3) rep show "IncompleteDir dir \<in> set msgs" by blast
  qed
  then have 1: "IncompleteDir dir \<in> set msgs \<longleftrightarrow> \<not> skip dir \<and>
          (\<exists>e\<in>set entries. \<not> entry_IsDir e \<and>
             \<not> mapBool ign (filepath_Join dir (entry_Name e)) \<and> \<not> mapBool lf (entry_Name e))"
    by (simp add: missingFiles_nonempty)
  have w': "snd (checkCompleteness skip ld ign w) = w'"
    and e: "fst (checkCompleteness skip ld ign w) = (if h' then Some IncompleteLinking else None)"
    using r by (simp_all add: checkCompleteness_def)
  show ?thesis
    using 1 h by (simp add: w' e out)
qed

text \<open>
  Claim C1, amended. Take a directory recorded in \<open>linkedDirs\<close> (a Go map has one entry
  for a key) that \<open>os.ReadDir\<close> can read. The earlier revisions report it as incomplete
  exactly when one of its entries is not a directory, is not in the ignore set under its
  full path (the directory joined with the name), and is not recorded as a linked file
  under its name. The later revision does so only when, in addition, the directory is not
  one it passes over: a directory whose path contains \<open>/.git\<close>, or \<open>.\<close> or \<open>..\<close>.
  The function returns an error exactly when it reported some directory.
\<close>

theorem completeness_report:
  assumes "distinct (map fst ld)" and "(dir, lf) \<in> set ld"
    and "os_ReadDir (fs w) dir = Some entries"
  shows
    "(IncompleteDir dir
        \<in> set (drop (length (stdout w)) (stdout (snd (checkDirectoryCompleteness ld ign w)))) \<longleftrightarrow>
      \<not> skippedDir dir \<and>
      (\<exists>e\<in>set entries. \<not> entry_IsDir e \<and>
         \<not> mapBool ign (filepath_Join dir (entry_Name e)) \<and> \<not> mapBool lf (entry_Name e))) \<and>
     (IncompleteDir dir
        \<in> set (drop (length (stdout w)) (stdout (snd (checkDirectoryCompleteness_v1 ld ign w)))) \<longleftrightarrow>
      (\<exists>e\<in>set entries. \<not> entry_IsDir e \<and>
         \<not> mapBool ign (filepath_Join dir (entry_Name e)) \<and> \<not> mapBool lf (entry_Name e))) \<and>
     fst (checkDirectoryCompleteness ld ign w) =
       (if \<exists>d. IncompleteDir d
              \<in> set (drop (length (stdout w)) (stdout (snd (checkDirectoryCompleteness ld ign w))))
        then Some IncompleteLinking else None) \<and>
     fst (checkDirectoryCompleteness_v1 ld ign w) =
       (if \<exists>d. IncompleteDir d
              \<in> set (drop (length (stdout w)) (stdout (snd (checkDirectoryCompleteness_v1 ld ign w))))
        then Some IncompleteLinking else None) \<and>
     (skippedDir dir \<longleftrightarrow> strings_Contains dir ''/.git'' \<or> dir = ''.'' \<or> dir = ''..'')"
  using checkCompleteness_report[OF assms, of skippedDir ign]
    checkCompleteness_report[OF assms, of skippedDir_v1 ign]
  unfolding checkDirectoryCompleteness_def checkDirectoryCompleteness_v1_def
  by (simp add: skippedDir_v1_def skippedDir_def)


lemma ex_check_opt:
  "checkDirectoryCompleteness [(''/opt/x'', [(''t'', True)])] [] example_world =
     (Some IncompleteLinking,
      say (MissingFiles [''u'']) (say (IncompleteDir ''/opt/x'') example_world))"
  by (simp add: checkDirectoryCompleteness_def checkCompleteness_def skippedDir_def
      example_world_def example_fs_def mapBool_def path_eval say_def)

theorem completeness_report_witness:
  "distinct (map fst [(''/opt/x'', [(''t'', True)])]) \<and>
   os_ReadDir (fs example_world) ''/opt/x'' =
     Some [DirEntry ''t'' False, DirEntry ''u'' False, DirEntry ''d'' True] \<and>
   \<not> skippedDir ''/opt/x'' \<and>
   \<not> mapBool [] (filepath_Join ''/opt/x'' ''u'') \<and> \<not> mapBool [(''t'', True)] ''u'' \<and>
   IncompleteDir ''/opt/x''
     \<in> set (stdout (snd (checkDirectoryCompleteness [(''/opt/x'', [(''t'', True)])] []
                          example_world))) \<and>
   fst (checkDirectoryCompleteness [(''/opt/x'', [(''t'', True)])] [] example_world) =
     Some IncompleteLinking"
proof -
  have d: "distinct (map fst [(''/opt/x'', [(''t'', True)])])" by simp
  have i: "(''/opt/x'', [(''t'', True)]) \<in> set [(''/opt/x'', [(''t'', True)])]" by simp
  have r: "os_ReadDir (fs example_world) ''/opt/x'' =
     Some [DirEntry ''t'' False, DirEntry ''u'' False, DirEntry ''d'' True]"
    by (simp add: example_world_def example_fs_def)
  have s: "\<not> skippedDir ''/opt/x''" by (simp add: skippedDir_def)
  have m: "\<not> mapBool [] (filepath_Join ''/opt/x'' ''u'')" "\<not> mapBool [(''t'', True)] ''u''"
    by (simp_all add: mapBool_def)
  have e: "stdout example_world = []" by (simp add: example_world_def)
  from completeness_report[OF d i r, of "[]"] s m e d r
  show ?thesis by (simp add: ex_check_opt)
qed

lemma ex_git_line:
  "fst (snd (processLine ''L /x - - - - /srv/.git/config'' [] example_world)) =
     [(''/srv/.git'', [(''config'', True)])]"
proof -
  have m: "FindStringSubmatch lineRegex ''L /x - - - - /srv/.git/config'' =
      Some (''/x'', ''- /srv/.git/config'')"
    by (simp add: regex_eval)
  have t: "declaredTarget ''- /srv/.git/config'' = ''/srv/.git/config''"
    by (simp add: declaredTarget_def strings_eval)
  have r: "resolveTargetPath ''/x'' ''/srv/.git/config'' = ''/srv/.git/config''"
    by (simp add: resolveTargetPath_def filepath_IsAbs_def strings_HasPrefix_def)
  have d: "filepath_Dir ''/srv/.git/config'' = ''/srv/.git''"
    "filepath_Base ''/srv/.git/config'' = ''config''"
    by (simp_all add: path_eval)
  have s: "os_Stat (fs example_world) ''/srv/.git/config''"
    by (simp add: example_world_def example_fs_def)
  show ?thesis
    by (simp add: processLine_match[OF m] t r s Let_def finishLine_def
        trackTarget_def d isBaseDir_def linkedDirs_add_def)
qed

text \<open>
  Claim C1 as stated fails in the later revision: a declaration records \<open>/srv/.git\<close>
  in \<open>linkedDirs\<close>, its entry \<open>HEAD\<close> is a file that is neither ignored nor linked, and
  the completeness check reports nothing and returns no error.
\<close>

theorem completeness_git_counterexample:
  "fst (snd (processLine ''L /x - - - - /srv/.git/config'' [] example_world)) =
     [(''/srv/.git'', [(''config'', True)])] \<and>
   os_ReadDir (fs example_world) ''/srv/.git'' =
     Some [DirEntry ''config'' False, DirEntry ''HEAD'' False] \<and>
   \<not> mapBool [] (filepath_Join ''/srv/.git'' ''HEAD'') \<and>
   \<not> mapBool [(''config'', True)] ''HEAD'' \<and>
   checkDirectoryCompleteness [(''/srv/.git'', [(''config'', True)])] [] example_world =
     (None, example_world)"
proof -
  have c: "strings_Contains ''/srv/.git'' ''/.git''" by simp
  have "checkDirectoryCompleteness [(''/srv/.git'', [(''config'', True)])] [] example_world =
     (None, example_world)"
    by (simp add: checkDirectoryCompleteness_def checkCompleteness_def skippedDir_def c)
  moreover have "os_ReadDir (fs example_world) ''/srv/.git'' =
     Some [DirEntry ''config'' False, DirEntry ''HEAD'' False]"
    by (simp add: example_world_def example_fs_def)
  moreover have "\<not> mapBool [] (filepath_Join ''/srv/.git'' ''HEAD'')"
    "\<not> mapBool [(''config'', True)] ''HEAD''"
    by (simp_all add: mapBool_def)
  ultimately show ?thesis using ex_git_line by simp
qed

section \<open>The loops of \<open>main\<close>\<close>

lemma fold_filter_skip:
  assumes "\<And>x st. \<not> P x \<Longrightarrow> body x st = st"
  shows "fold body (filter P xs) st = fold body xs st"
  by (induction xs arbitrary: st) (simp_all add: assms)

lemma scanLine_skip:
  assumes "\<not> strings_HasPrefix (strings_TrimSpace raw) ''L''"
  shows "scanLine raw st = st"
  using assms by (cases st) (simp add: scanLine_def Let_def)

lemma scanLine_parse:
  assumes "strings_HasPrefix (strings_TrimSpace raw) ''L''"
  shows "scanLine raw (ec, ld, w) =
     (case processLine (strings_TrimSpace raw) ld w of
        (None, ld', w') \<Rightarrow> (ec, ld', w')
      | (Some err, ld', w') \<Rightarrow> (1, ld', w'))"
proof -
  from assms have "strings_TrimSpace raw \<noteq> []" "\<not> strings_HasPrefix (strings_TrimSpace raw) ''#''"
    by (auto simp: strings_HasPrefix_def prefix_def)
  with assms show ?thesis
    by (simp add: scanLine_def Let_def split: prod.split option.split)
qed

lemma scanLine_v1_skip:
  assumes "\<not> strings_HasPrefix line ''L'' \<or> strings_HasPrefix line ''L?'' \<or> strings_HasPrefix line ''L+''"
  shows "scanLine_v1 line st = st"
  using assms by (cases st) (auto simp add: scanLine_v1_def)

lemma scanLine_v1_parse:
  assumes "strings_HasPrefix line ''L''" "\<not> strings_HasPrefix line ''L?''"
    "\<not> strings_HasPrefix line ''L+''"
  shows "scanLine_v1 line (ec, ld, w) =
     (case processLine_v1 line ld w of
        (None, ld', w') \<Rightarrow> (ec, ld', w')
      | (Some err, ld', w') \<Rightarrow> (1, ld', w'))"
  using assms by (simp add: scanLine_v1_def split: prod.split option.split)

lemma processLine_fs: "fs (snd (snd (processLine line ld w))) = fs w"
  using processLine_prints[of w line ld] by (simp add: printsOnly_def)

lemma processLine_v1_fs: "fs (snd (snd (processLine_v1 line ld w))) = fs w"
  using processLine_v1_prints[of w line ld] by (simp add: printsOnly_def)

lemma processLine_error:
  "fst (processLine line ld w) \<noteq> None \<longleftrightarrow> requiredTargetMissing (fs w) line"
proof (cases "FindStringSubmatch lineRegex line")
  case None
  then show ?thesis by (simp add: processLine_nomatch requiredTargetMissing_def)
next
  case (Some pt)
  obtain path tf where "pt = (path, tf)" by (cases pt)
  with Some have m: "FindStringSubmatch lineRegex line = Some (path, tf)" by simp
  show ?thesis
    using processLine_error_iff[OF m, of ld w] by (simp add: requiredTargetMissing_def m)
qed



lemma scanLine_exit:
  "fst (scanLine raw (ec, ld, w)) =
     (if requiredTargetMissing (fs w) (strings_TrimSpace raw) then 1 else ec) \<and>
   fs (snd (snd (scanLine raw (ec, ld, w)))) = fs w"
proof (cases "strings_HasPrefix (strings_TrimSpace raw) ''L''")
  case True
  obtain e l v where r: "processLine (strings_TrimSpace raw) ld w = (e, l, v)"
    by (cases "processLine (strings_TrimSpace raw) ld w")
  from processLine_error[of "strings_TrimSpace raw" ld w] r
  have e: "e \<noteq> None \<longleftrightarrow> requiredTargetMissing (fs w) (strings_TrimSpace raw)" by simp
  from processLine_fs[of "strings_TrimSpace raw" ld w] r have f: "fs v = fs w" by simp
  show ?thesis
    using e f by (cases e) (simp_all add: scanLine_parse[OF True] r)
next
  case False
  then have "FindStringSubmatch lineRegex (strings_TrimSpace raw) = None"
    using match_begins_L[of "strings_TrimSpace raw"] by (cases "FindStringSubmatch lineRegex (strings_TrimSpace raw)") auto
  with False show ?thesis
    by (simp add: scanLine_skip requiredTargetMissing_def)
qed










lemma loadIgnoreFiles_fs: "fs (snd (loadIgnoreFiles w)) = fs w"
  using loadIgnoreFiles_prints[of w] by (simp add: printsOnly_def)



lemma ex_missing_line:
  "requiredTargetMissing (fs recreate_world) ''L /a - - - - /missing''"
  "requiredTargetMissing (fs recreate_world) ''L+ /a - - - - /missing''"
proof -
  have m: "FindStringSubmatch lineRegex ''L /a - - - - /missing'' = Some (''/a'', ''- /missing'')"
    "FindStringSubmatch lineRegex ''L+ /a - - - - /missing'' = Some (''/a'', ''- /missing'')"
    by (simp_all add: regex_eval)
  have t: "declaredTarget ''- /missing'' = ''/missing''"
    by (simp add: declaredTarget_def strings_eval)
  have c: "checkedTarget ''/a'' ''/missing'' = ''/missing''"
    by (simp add: checkedTarget_def resolveTargetPath_def filepath_IsAbs_def strings_HasPrefix_def)
  show "requiredTargetMissing (fs recreate_world) ''L /a - - - - /missing''"
    "requiredTargetMissing (fs recreate_world) ''L+ /a - - - - /missing''"
    by (simp_all add: requiredTargetMissing_def m t c strings_HasPrefix_def recreate_world_def
        recreate_fs_def)
qed


section \<open>Lines that are not declarations\<close>

text \<open>
  Claim C4, amended. In the later revision a line is trimmed of surrounding white space
  first. A line that then does not begin with \<open>L\<close> leaves the exit code,
  \<open>linkedDirs\<close> and the output as they were, and a line that then begins with \<open>L\<close> is
  passed to \<open>processLine\<close>, which alone decides its effect; so a file has the effect of
  its lines that begin with \<open>L\<close> after trimming. In the earlier revisions a line is read
  as it is: it is passed to \<open>processLine\<close> exactly when it begins with \<open>L\<close> but with
  neither \<open>L?\<close> nor \<open>L+\<close>, and has no effect otherwise.
\<close>

theorem only_directive_lines_read:
  "(\<not> strings_HasPrefix (strings_TrimSpace raw) ''L'' \<longrightarrow> scanLine raw st = st) \<and>
   (strings_HasPrefix (strings_TrimSpace raw) ''L'' \<longrightarrow>
      scanLine raw (ec, ld, w) =
        (case processLine (strings_TrimSpace raw) ld w of
           (None, ld', w') \<Rightarrow> (ec, ld', w')
         | (Some err, ld', w') \<Rightarrow> (1, ld', w'))) \<and>
   fold scanLine (filter (\<lambda>raw. strings_HasPrefix (strings_TrimSpace raw) ''L'') lines) st =
     fold scanLine lines st \<and>
   (\<not> strings_HasPrefix line ''L'' \<or> strings_HasPrefix line ''L?'' \<or>
    strings_HasPrefix line ''L+'' \<longrightarrow> scanLine_v1 line st = st) \<and>
   (strings_HasPrefix line ''L'' \<and> \<not> strings_HasPrefix line ''L?'' \<and>
    \<not> strings_HasPrefix line ''L+'' \<longrightarrow>
      scanLine_v1 line (ec, ld, w) =
        (case processLine_v1 line ld w of
           (None, ld', w') \<Rightarrow> (ec, ld', w')
         | (Some err, ld', w') \<Rightarrow> (1, ld', w'))) \<and>
   fold scanLine_v1
     (filter (\<lambda>l. strings_HasPrefix l ''L'' \<and> \<not> strings_HasPrefix l ''L?'' \<and>
                  \<not> strings_HasPrefix l ''L+'') lines) st =
     fold scanLine_v1 lines st"
proof -
  have a: "fold scanLine (filter (\<lambda>raw. strings_HasPrefix (strings_TrimSpace raw) ''L'') lines) st =
     fold scanLine lines st"
    by (rule fold_filter_skip) (rule scanLine_skip)
  have b: "fold scanLine_v1
     (filter (\<lambda>l. strings_HasPrefix l ''L'' \<and> \<not> strings_HasPrefix l ''L?'' \<and>
                  \<not> strings_HasPrefix l ''L+'') lines) st =
     fold scanLine_v1 lines st"
    by (rule fold_filter_skip) (rule scanLine_v1_skip, blast)
  show ?thesis
    using a b scanLine_skip scanLine_parse scanLine_v1_skip scanLine_v1_parse by blast
qed

theorem only_directive_lines_read_witness:
  "\<not> strings_HasPrefix (strings_TrimSpace ''d /x'') ''L'' \<and>
   scanLine ''d /x'' (0, [], example_world) = (0, [], example_world) \<and>
   strings_HasPrefix ''L+ /a - - - - /missing'' ''L+'' \<and>
   scanLine_v1 ''L+ /a - - - - /missing'' (0, [], example_world) = (0, [], example_world) \<and>
   fold scanLine (filter (\<lambda>raw. strings_HasPrefix (strings_TrimSpace raw) ''L'')
                    [''# links'', ''d /x'']) (0, [], example_world) =
     fold scanLine [''# links'', ''d /x''] (0, [], example_world)"
proof -
  have a: "\<not> strings_HasPrefix (strings_TrimSpace ''d /x'') ''L''"
    and b: "strings_HasPrefix ''L+ /a - - - - /missing'' ''L+''"
    by (simp_all add: strings_eval)
  from only_directive_lines_read
    [of "''d /x''" "(0, [], example_world)" 0 "[]" example_world "[''# links'', ''d /x'']"
        "''L+ /a - - - - /missing''"] a b
  show ?thesis by simp
qed

text \<open>
  Claim C4 as stated fails. In the later revision a line that begins with white space and
  not with \<open>L\<close> is read as a declaration and raises the exit code. In the earlier
  revisions a line that begins with the directive \<open>L+\<close> is not read at all.
\<close>

theorem leading_space_counterexample:
  "\<not> strings_HasPrefix ''  L /a - - - - /missing'' ''L'' \<and>
   fst (scanLine ''  L /a - - - - /missing'' (0, [], recreate_world)) = 1 \<and>
   strings_HasPrefix ''L+ /a - - - - /missing'' ''L'' \<and>
   scanLine_v1 ''L+ /a - - - - /missing'' (0, [], recreate_world) = (0, [], recreate_world)"
proof -
  have t: "strings_TrimSpace ''  L /a - - - - /missing'' = ''L /a - - - - /missing''"
    by (simp add: strings_eval)
  have 1: "fst (scanLine ''  L /a - - - - /missing'' (0, [], recreate_world)) = 1"
    using scanLine_exit[of "''  L /a - - - - /missing''" 0 "[]" recreate_world] ex_missing_line(1)
    by (simp add: t)
  have 2: "scanLine_v1 ''L+ /a - - - - /missing'' (0, [], recreate_world) = (0, [], recreate_world)"
    by (rule scanLine_v1_skip) (simp add: strings_HasPrefix_def)
  from 1 2 show ?thesis by (simp add: strings_HasPrefix_def)
qed

section \<open>The exit code\<close>


section \<open>The file system is only read\<close>

text \<open>
  Claim C5. Every function of the program returns the world with the file system it was
  given: \<open>processLine\<close>, \<open>loadIgnoreFiles\<close>, \<open>checkDirectoryCompleteness\<close>,
  \<open>printSummary\<close> and \<open>main\<close>, in every revision. A declaration with the directive
  \<open>L+\<close> whose target exists is handled as any other, and the last thing printed for it
  is the note about recreation.
\<close>

theorem filesystem_unchanged:
  "fs (snd (snd (processLine line ld w))) = fs w \<and>
   fs (snd (snd (processLine_v1 line ld w))) = fs w \<and>
   fs (snd (loadIgnoreFiles w)) = fs w \<and>
   fs (snd (checkDirectoryCompleteness ld ign w)) = fs w \<and>
   fs (snd (checkDirectoryCompleteness_v1 ld ign w)) = fs w \<and>
   fs (printSummary ld ign w) = fs w \<and>
   fs (printSummary_v1 ld ign w) = fs w \<and>
   fs (snd (main w)) = fs w \<and>
   fs (snd (main_v1 w)) = fs w \<and>
   (\<forall>path tf. strings_HasPrefix line ''L+'' \<and>
      FindStringSubmatch lineRegex line = Some (path, tf) \<and>
      os_Stat (fs w) (checkedTarget path (declaredTarget tf)) \<longrightarrow>
      (\<exists>msgs. processLine line ld w =
         (None, trackTarget isBaseDir (checkedTarget path (declaredTarget tf)) ld,
          w\<lparr>stdout := stdout w @ msgs @ [RecreateNote]\<rparr>)))"
proof -
  have c: "fs (snd (checkCompleteness skip ld ign w)) = fs w" for skip
    using checkDirs_report[of skip ld ign False w]
    by (auto simp add: checkCompleteness_def split: prod.split)
  have s: "fs (summaryDirs skip ld ign (say SummaryHeader w)) = fs w" for skip
    using summaryDirs_prints[of ld "\<lambda>d. True" "say SummaryHeader w" skip ign]
    by (simp add: printsOnly_def)
  have m: "fs (snd (main w)) = fs w" "fs (snd (main_v1 w)) = fs w"
    using main_prints[of w] main_v1_prints[of w] by (simp_all add: printsOnly_def)
  have r: "\<forall>path tf. strings_HasPrefix line ''L+'' \<and>
      FindStringSubmatch lineRegex line = Some (path, tf) \<and>
      os_Stat (fs w) (checkedTarget path (declaredTarget tf)) \<longrightarrow>
      (\<exists>msgs. processLine line ld w =
         (None, trackTarget isBaseDir (checkedTarget path (declaredTarget tf)) ld,
          w\<lparr>stdout := stdout w @ msgs @ [RecreateNote]\<rparr>))"
  proof (intro allI impI, elim conjE)
    fix path tf
    assume p: "strings_HasPrefix line ''L+''"
      and mt: "FindStringSubmatch lineRegex line = Some (path, tf)"
      and ex: "os_Stat (fs w) (checkedTarget path (declaredTarget tf))"
    let ?t = "declaredTarget tf"
    show "\<exists>msgs. processLine line ld w =
         (None, trackTarget isBaseDir (checkedTarget path ?t) ld,
          w\<lparr>stdout := stdout w @ msgs @ [RecreateNote]\<rparr>)"
    proof (cases "?t = [] \<or> ?t = ''-''")
      case True
      with p ex show ?thesis
        by (intro exI[of _ "[FactoryDefault path (factoryTarget path),
              FactoryExists (factoryTarget path)]"])
          (auto simp add: processLine_match[OF mt] Let_def finishLine_def checkedTarget_def say_def)
    next
      case False
      with p ex show ?thesis
        by (intro exI[of _ "[ExplicitTarget path ?t] @
              (if resolveTargetPath path ?t \<noteq> ?t then [ResolvedTarget (resolveTargetPath path ?t)]
               else []) @ [TargetExists (resolveTargetPath path ?t)]"])
          (auto simp add: processLine_match[OF mt] Let_def finishLine_def checkedTarget_def say_def)
    qed
  qed
  show ?thesis
    using c[of skippedDir] c[of skippedDir_v1] s[of skippedDir] s[of skippedDir_v1] m r
    by (simp add: processLine_fs processLine_v1_fs loadIgnoreFiles_fs
        checkDirectoryCompleteness_def checkDirectoryCompleteness_v1_def
        printSummary_def printSummary_v1_def)
qed

theorem filesystem_unchanged_witness:
  "strings_HasPrefix ''L+ /a/b - - - - ../opt/x/t'' ''L+'' \<and>
   FindStringSubmatch lineRegex ''L+ /a/b - - - - ../opt/x/t'' = Some (''/a/b'', ''- ../opt/x/t'') \<and>
   os_Stat (fs example_world) (checkedTarget ''/a/b'' (declaredTarget ''- ../opt/x/t'')) \<and>
   fs (snd (main example_world)) = fs example_world \<and>
   (\<exists>msgs. processLine ''L+ /a/b - - - - ../opt/x/t'' [] example_world =
      (None, trackTarget isBaseDir (checkedTarget ''/a/b'' (declaredTarget ''- ../opt/x/t'')) [],
       example_world\<lparr>stdout := stdout example_world @ msgs @ [RecreateNote]\<rparr>))"
proof -
  have p: "strings_HasPrefix ''L+ /a/b - - - - ../opt/x/t'' ''L+''"
    by (simp add: strings_HasPrefix_def)
  have c: "checkedTarget ''/a/b'' (declaredTarget ''- ../opt/x/t'') = ''/opt/x/t''"
    by (simp add: ex_target_rel checkedTarget_def resolveTargetPath_def filepath_IsAbs_def
        strings_HasPrefix_def ex_resolved_rel)
  have s: "os_Stat (fs example_world) (checkedTarget ''/a/b'' (declaredTarget ''- ../opt/x/t''))"
    by (simp add: c example_world_def example_fs_def)
  from filesystem_unchanged [of "''L+ /a/b - - - - ../opt/x/t''" "[]" example_world "[]"]
    p ex_match_rel s
  show ?thesis by simp
qed

section \<open>The line grammar as a description of lines\<close>


lemma capture_None [simp]: "capture cap txt r = None \<longleftrightarrow> r = None"
  by (simp add: capture_def)






































section \<open>The exit code and the reports of errors\<close>







































end
